theory Spec2Isabelle
  imports Complex_Main "HOL-Library.Word" "HOL-Library.Product_Lexorder" "HOL-Library.List_Lexorder"
begin

unbundle bit_operations_syntax

section \<open>Python values used by RPiNWR\<close>

text \<open>
  A Python \<open>str\<close> is a sequence of Unicode code points; \<open>ord\<close> and \<open>chr\<close> are
  the identity on this representation. \<open>ustr\<close> writes an ASCII literal.
\<close>

type_synonym ustring = "nat list"

definition ustr :: "string \<Rightarrow> ustring" where
  "ustr s = map of_char s"

datatype error =
  IndexError | TypeError | ValueError | KeyError | ZeroDivisionError | AssertionError | AttributeError

text \<open>\<open>xs[i]\<close> for \<open>i \<ge> 0\<close>: IndexError out of range.\<close>

definition py_get :: "'a list \<Rightarrow> nat \<Rightarrow> error + 'a" where
  "py_get xs i = (if i < length xs then Inr (xs ! i) else Inl IndexError)"

text \<open>\<open>xs[i]\<close> for any integer: a negative index counts from the end.\<close>

definition py_index :: "'a list \<Rightarrow> int \<Rightarrow> error + 'a" where
  "py_index xs i =
     (if 0 \<le> i then py_get xs (nat i)
      else if nat (- i) \<le> length xs then Inr (xs ! (length xs - nat (- i)))
      else Inl IndexError)"

text \<open>\<open>xs[a:b]\<close>: both bounds are clipped, negative bounds count from the end.\<close>

definition py_bound :: "nat \<Rightarrow> int \<Rightarrow> nat" where
  "py_bound n i = (if i < 0 then nat (max 0 (int n + i)) else min n (nat i))"

definition py_slice :: "'a list \<Rightarrow> int \<Rightarrow> int \<Rightarrow> 'a list" where
  "py_slice xs a b = (let lo = py_bound (length xs) a; hi = py_bound (length xs) b
                      in take (hi - lo) (drop lo xs))"

text \<open>\<open>xs[a:b]\<close> for \<open>0 \<le> a\<close>, \<open>0 \<le> b\<close>.\<close>

definition slice :: "'a list \<Rightarrow> nat \<Rightarrow> nat \<Rightarrow> 'a list" where
  "slice xs a b = take (b - a) (drop a xs)"

text \<open>\<open>s.find(c)\<close> for a one-character \<open>c\<close>: the first index, or \<open>-1\<close>.\<close>

fun find_from :: "nat \<Rightarrow> nat \<Rightarrow> ustring \<Rightarrow> int" where
  "find_from i c [] = -1"
| "find_from i c (x # xs) = (if x = c then int i else find_from (Suc i) c xs)"

definition py_find :: "ustring \<Rightarrow> nat \<Rightarrow> int" where
  "py_find s c = find_from 0 c s"

text \<open>\<open>s.split(c)\<close> for a one-character separator: always at least one piece.\<close>

fun py_split :: "ustring \<Rightarrow> nat \<Rightarrow> ustring list" where
  "py_split [] c = [[]]"
| "py_split (x # xs) c =
     (if x = c then [] # py_split xs c
      else (case py_split xs c of p # ps \<Rightarrow> (x # p) # ps | [] \<Rightarrow> [[x]]))"

section \<open>unicodify (SAME.py)\<close>

definition unicodify_char :: "nat \<Rightarrow> nat" where
  "unicodify_char c =
     (if c = 0 then 0x2A00
      else if c \<le> 0x1F then c OR 0x2400
      else if c > 126 then (c AND 0xFF) OR 0x1E00
      else c)"

definition unicodify :: "ustring \<Rightarrow> ustring" where
  "unicodify s = map unicodify_char s"

text \<open>
  The code points the docstring of \<open>unicodify\<close> calls printable: printable ASCII, the
  circled dot U+2A00, the Control Pictures block and the block U+1E00..U+1EFF.
\<close>

definition readable_code_point :: "nat \<Rightarrow> bool" where
  "readable_code_point c =
     ((32 \<le> c \<and> c \<le> 126) \<or> c = 0x2A00 \<or> (0x2400 \<le> c \<and> c \<le> 0x243F) \<or> (0x1E00 \<le> c \<and> c \<le> 0x1EFF))"

section \<open>ConfidentCharacter (SAME.py)\<close>

record ConfidentCharacter =
  char :: nat
  confidence :: int
  bitwise_confidence :: "int list"

text \<open>
  The constructor: exactly one of \<open>confidence\<close> and \<open>bitwise_confidence\<close> is given.
  \<open>sum(bitwise_confidence) >> 3\<close> is the floor of the sum divided by 8.
\<close>

definition ConfidentCharacter_init ::
    "nat \<Rightarrow> int option \<Rightarrow> int list option \<Rightarrow> error + ConfidentCharacter" where
  "ConfidentCharacter_init c conf bw =
     (case conf of
        None \<Rightarrow>
          (case bw of
             None \<Rightarrow> Inl TypeError
           | Some b \<Rightarrow>
               if length b \<noteq> 8 then Inl ValueError
               else Inr \<lparr>char = c, confidence = sum_list b div 8, bitwise_confidence = b\<rparr>)
      | Some cf \<Rightarrow>
          (case bw of
             Some b \<Rightarrow> Inl ValueError
           | None \<Rightarrow> Inr \<lparr>char = c, confidence = cf, bitwise_confidence = replicate 8 cf\<rparr>))"

text \<open>
  \<open>get_bit_confidences\<close>: for each of the eight bits, the confidence counted for the
  bit being true or being false. Reading \<open>bitwise_confidence[k]\<close> beyond the end of the
  list raises IndexError.
\<close>

definition get_bit_confidences :: "ConfidentCharacter \<Rightarrow> error + (int list \<times> int list)" where
  "get_bit_confidences cc =
     (if length (bitwise_confidence cc) < 8 then Inl IndexError
      else Inr (map (\<lambda>k. if bit (char cc) k then bitwise_confidence cc ! k else 0) [0..<8],
                map (\<lambda>k. if bit (char cc) k then 0 else bitwise_confidence cc ! k) [0..<8]))"

text \<open>The loop of \<open>__add__\<close> over the eight bits: the new byte and its confidences.\<close>

definition merge_byte :: "int list \<Rightarrow> nat" where
  "merge_byte how_true =
     fold (\<lambda>i b. if how_true ! i > 0 then b OR push_bit i 1 else b) [0..<8] 0"

definition merge_confidence :: "int list \<Rightarrow> int list" where
  "merge_confidence how_true =
     map (\<lambda>i. if how_true ! i > 0 then how_true ! i else - (how_true ! i)) [0..<8]"

definition ConfidentCharacter_add ::
    "ConfidentCharacter \<Rightarrow> ConfidentCharacter \<Rightarrow> error + ConfidentCharacter" where
  "ConfidentCharacter_add a b =
     (case get_bit_confidences a of
        Inl e \<Rightarrow> Inl e
      | Inr (bits_true, bits_false) \<Rightarrow>
          (case get_bit_confidences b of
             Inl e \<Rightarrow> Inl e
           | Inr (other_bits_true, other_bits_false) \<Rightarrow>
               (let new_bits_true = map2 (+) bits_true other_bits_true;
                    new_bits_false = map2 (+) bits_false other_bits_false;
                    how_true = map2 (-) new_bits_true new_bits_false
                in ConfidentCharacter_init (merge_byte how_true) None
                     (Some (merge_confidence how_true)))))"

section \<open>Reference tables and the field grammar (SAME.py)\<close>

definition ORIGINATOR_CODES :: "ustring list" where
  "ORIGINATOR_CODES = map ustr [''EAS'', ''CIV'', ''WXR'', ''PEP'']"

definition EVENT_CODES :: "ustring list" where
  "EVENT_CODES = map ustr
       [''BZW'', ''CFA'', ''CFW'', ''DSW'', ''FFA'', ''FFW'', ''FFS'', ''FLA'', ''FLW'', ''FLS'',
        ''HWA'', ''HWW'', ''HUA'', ''HUW'', ''HLS'', ''SVA'', ''SVR'', ''SVS'', ''SMW'', ''SPS'',
        ''TOA'', ''TOR'', ''TRA'', ''TRW'', ''TSA'', ''TSW'', ''WSA'', ''WSW'', ''EAN'', ''EAT'',
        ''NIC'', ''NPT'', ''RMT'', ''RWT'', ''ADR'', ''AVA'', ''AVW'', ''CAE'', ''CDW'', ''CEM'',
        ''EQW'', ''EVI'', ''FRW'', ''HMW'', ''LEW'', ''LAE'', ''TOE'', ''NUW'', ''RHW'', ''SPW'',
        ''VOW'', ''NMN'', ''DMO'', ''TXF'', ''TXO'', ''TXB'', ''TXP'']"

text \<open>
  Weights are Python floats in the source (\<open>1.1\<close>, \<open>.9\<close>); they are modelled as the
  rationals their literals denote, and float division as exact division.
\<close>

definition VALID_DURATIONS :: "(rat \<times> ustring) list" where
  "VALID_DURATIONS =
     [(1, ustr ''0015''), (1, ustr ''0030''), (11/10, ustr ''0045''), (11/10, ustr ''0100''),
      (1, ustr ''0130''), (11/10, ustr ''0200''), (1, ustr ''0230''), (11/10, ustr ''0300''),
      (9/10, ustr ''0330''), (11/10, ustr ''0400''), (9/10, ustr ''0430''), (11/10, ustr ''0500''),
      (9/10, ustr ''0530''), (11/10, ustr ''0600'')]"

definition DURATION_NUMBERS :: "ustring list" where
  "DURATION_NUMBERS = map snd VALID_DURATIONS"

definition ALPHA :: ustring where
  "ALPHA = ustr ''ABCDEFGHIJKLMNOPQRSTUVWXYZ''"

definition NUMERIC :: ustring where
  "NUMERIC = ustr ''0123456789''"

definition PRINTABLE :: ustring where
  "PRINTABLE = [0x10, 0x13] @ filter (\<lambda>x. x \<noteq> 43 \<and> x \<noteq> 45) [33..<127]"

text \<open>An entry of \<open>_SAME_CHARS\<close>: the characters allowed at a position, or the integer
  that marks a repeating block.\<close>

datatype pattern = Chars ustring | Rep int

definition SAME_CHARS :: "pattern list" where
  "SAME_CHARS =
     [Chars (ustr ''-''), Chars (ustr ''ECWP''), Chars (ustr ''AIXE''), Chars (ustr ''SVRP''),
      Chars (ustr ''-''), Chars ALPHA, Chars ALPHA, Chars ALPHA, Chars (ustr ''-''),
      Chars PRINTABLE, Chars PRINTABLE, Chars PRINTABLE, Chars PRINTABLE, Chars PRINTABLE,
      Chars PRINTABLE, Rep (-7),
      Chars (ustr ''+''), Chars NUMERIC, Chars NUMERIC, Chars (ustr ''0134''), Chars (ustr ''05''),
      Chars (ustr ''-''),
      Chars (ustr ''0123''), Chars NUMERIC, Chars NUMERIC, Chars (ustr ''012''), Chars NUMERIC,
      Chars (ustr ''012345''), Chars NUMERIC, Chars (ustr ''-''),
      Chars ALPHA, Chars ALPHA, Chars ALPHA, Chars ALPHA, Chars (ustr ''/''), Chars (ustr ''N''),
      Chars (ustr ''W''), Chars (ustr ''S''), Chars (ustr ''-'')]"

definition END_SEQUENCE :: ustring where
  "END_SEQUENCE = ustr ''+0___-_______-____/NWS-''"

section \<open>Word distance, median and the word reconciler (SAME.py)\<close>

text \<open>
  A confidence sequence is a list of integers. The source also accepts the same sequence
  written as a string of decimal digits and converts each digit with \<open>int\<close>; for the
  digits 0..9 the driver supplies both readings are the same list.
\<close>

text \<open>
  \<open>_word_distance\<close>: the loop over the positions \<open>i\<close> of \<open>choice\<close>, carrying \<open>d\<close>. A
  wildcard of \<open>None\<close> equals no character. Reading \<open>confidence[i]\<close> past the end raises
  IndexError; a word shorter than the choice returns early.
\<close>

fun word_distance_loop ::
    "ustring \<Rightarrow> int list \<Rightarrow> nat option \<Rightarrow> nat \<Rightarrow> ustring \<Rightarrow> int \<Rightarrow> error + int" where
  "word_distance_loop word conf wildcard i [] d = Inr d"
| "word_distance_loop word conf wildcard i (c # cs) d =
     (if i < length word then
        (if Some c \<noteq> wildcard \<and> word ! i \<noteq> c then
           (if i < length conf
            then word_distance_loop word conf wildcard (Suc i) cs (d + (1 + conf ! i))
            else Inl IndexError)
         else word_distance_loop word conf wildcard (Suc i) cs d)
      else Inr (d + (int (length word) - int i + 1) * 9))"

definition word_distance :: "ustring \<Rightarrow> int list \<Rightarrow> ustring \<Rightarrow> nat option \<Rightarrow> error + int" where
  "word_distance word conf choice wildcard = word_distance_loop word conf wildcard 0 choice 0"

text \<open>\<open>__median\<close>: the middle element, or half the sum of the two middle elements.\<close>

definition median :: "int list \<Rightarrow> rat" where
  "median lst =
     (let quotient = length lst div 2; s = sort lst
      in if length lst mod 2 = 1 then of_int (s ! quotient)
         else of_int (sum_list (py_slice s (int quotient - 1) (int quotient + 1))) / 2)"

text \<open>\<open>int(x)\<close> of a number: truncation towards zero.\<close>

definition py_trunc :: "rat \<Rightarrow> int" where
  "py_trunc x = (if 0 \<le> x then \<lfloor>x\<rfloor> else \<lceil>x\<rceil>)"

text \<open>The first error of a list of results, or all the values.\<close>

fun collect :: "(error + 'a) list \<Rightarrow> error + 'a list" where
  "collect [] = Inr []"
| "collect (Inl e # rs) = Inl e"
| "collect (Inr x # rs) = (case collect rs of Inl e \<Rightarrow> Inl e | Inr xs \<Rightarrow> Inr (x # xs))"

text \<open>The choices of the reconciler: plain strings, or pairs of a weight and a string.\<close>

datatype choices = Plain "ustring list" | Weighted "(rat \<times> ustring) list"

text \<open>
  \<open>choices[0][0] + 0\<close> raises TypeError for a plain string (caught: every choice gets weight
  1), IndexError for an empty first string (not caught).
\<close>

definition weighted_choices :: "choices \<Rightarrow> error + (rat \<times> ustring) list" where
  "weighted_choices ch =
     (case ch of
        Weighted ws \<Rightarrow> Inr ws
      | Plain [] \<Rightarrow> Inr []
      | Plain (c # cs) \<Rightarrow> if c = [] then Inl IndexError else Inr (map (\<lambda>x. (1, x)) (c # cs)))"

definition choices_empty :: "choices \<Rightarrow> bool" where
  "choices_empty ch = (case ch of Plain cs \<Rightarrow> cs = [] | Weighted ws \<Rightarrow> ws = [])"

text \<open>One candidate: \<open>(_word_distance(word, confidence, c) + 1) / weight\<close>.\<close>

definition candidate :: "ustring \<Rightarrow> int list \<Rightarrow> rat \<times> ustring \<Rightarrow> error + (rat \<times> ustring)" where
  "candidate word conf wc =
     (case word_distance word conf (snd wc) None of
        Inl e \<Rightarrow> Inl e
      | Inr d \<Rightarrow> if fst wc = 0 then Inl ZeroDivisionError
                else Inr (of_int (d + 1) / fst wc, snd wc))"

text \<open>
  The loop \<open>for i in range(start, end)\<close> after a match. \<open>word\<close> is by now the winning
  candidate, so \<open>word[i]\<close> is read in the candidate, not in the message.
\<close>

fun update_confidences :: "ustring \<Rightarrow> nat \<Rightarrow> int \<Rightarrow> nat list \<Rightarrow> int list \<Rightarrow> error + int list" where
  "update_confidences word start base [] confs = Inr confs"
| "update_confidences word start base (i # is) confs =
     (if i < length word then
        (if i < length confs then
           update_confidences word start base is
             (confs[i := (if word ! i \<noteq> word ! (i - start) then base else min 9 (base div 8))])
         else Inl IndexError)
      else Inl IndexError)"

text \<open>\<open>l[start:end] = list(word)\<close> on \<open>l = list(word)\<close>.\<close>

definition slice_assign :: "'a list \<Rightarrow> nat \<Rightarrow> nat \<Rightarrow> 'a list \<Rightarrow> 'a list" where
  "slice_assign l a b new =
     (let lo = min a (length l); hi = max lo (min b (length l))
      in take lo l @ new @ drop hi l)"

definition reconcile_word ::
    "ustring \<Rightarrow> int list \<Rightarrow> nat \<Rightarrow> choices \<Rightarrow> error + (ustring \<times> int list \<times> bool)" where
  "reconcile_word word confidences start chs =
     (if choices_empty chs then Inr (word, confidences, False)
      else if length word \<le> start then Inr (word, confidences, False)
      else if confidences = [] then Inl IndexError
      else
        (case weighted_choices chs of
           Inl e \<Rightarrow> Inl e
         | Inr choices \<Rightarrow>
             (let end = start + length (snd (hd choices));
                  word1 = slice word start end;
                  confidence = slice confidences start end
              in case collect (map (candidate word1 confidence) choices) of
                   Inl e \<Rightarrow> Inl e
                 | Inr cands \<Rightarrow>
                     (let candidates = sort cands in
                      if fst (candidates ! 0) < max 4 (median confidences) \<and>
                         (length candidates = 1 \<or> fst (candidates ! 0) < fst (candidates ! 1))
                      then
                        (let word2 = snd (candidates ! 0) in
                         if slice confidences start end = [] then Inl ValueError
                         else
                           (let base_confidence =
                                  max 0 (py_trunc (of_int (max 4 (Max (set (slice confidences start end))))
                                                   - fst (candidates ! 0) / of_nat (end - start)))
                            in case update_confidences word2 start base_confidence [start..<end] confidences of
                                 Inl e \<Rightarrow> Inl e
                               | Inr confidences' \<Rightarrow>
                                   Inr (slice_assign word2 start end word2, confidences', True)))
                      else Inr (word1, confidences, False)))))"

section \<open>Truncation and framing (SAME.py)\<close>

text \<open>\<open>range(38, len(avgmsg) + 1, 7)\<close>.\<close>

definition truncate_lengths :: "nat \<Rightarrow> nat list" where
  "truncate_lengths n = (if n < 38 then [] else map (\<lambda>k. 38 + 7 * k) [0..<(n - 38) div 7 + 1])"

definition frame_of :: "nat \<Rightarrow> ustring" where
  "frame_of fips_count =
     ustr ''-___-___'' @ concat (replicate fips_count (ustr ''-______'')) @ END_SEQUENCE"

text \<open>
  The loop that lays the frame into the message. Both branches write \<open>confidences[i]\<close>,
  which raises IndexError when the confidences are shorter than the message.
\<close>

fun lay_frame :: "ustring \<Rightarrow> int \<Rightarrow> nat list \<Rightarrow> ustring \<times> int list \<Rightarrow> error + (ustring \<times> int list)" where
  "lay_frame frame end_confidence [] mc = Inr mc"
| "lay_frame frame end_confidence (i # is) mc =
     (if frame ! i \<noteq> 95 then
        (if i < length (snd mc) then
           (if fst mc ! i \<noteq> frame ! i
            then lay_frame frame end_confidence is
                   ((fst mc)[i := frame ! i], (snd mc)[i := end_confidence])
            else lay_frame frame end_confidence is
                   (fst mc, (snd mc)[i := max end_confidence (snd mc ! i)]))
         else Inl IndexError)
      else lay_frame frame end_confidence is mc)"

text \<open>One candidate of \<open>_truncate\<close>: the score of the 23 characters that end at \<open>l\<close>. The
  confidences are passed whole, so position \<open>i\<close> of the tail is weighed with
  \<open>confidences[i]\<close>.\<close>

definition truncate_candidate :: "ustring \<Rightarrow> int list \<Rightarrow> nat \<Rightarrow> error + (int \<times> nat)" where
  "truncate_candidate avgmsg confidences l =
     (case word_distance (slice avgmsg (l - 23) l) confidences END_SEQUENCE (Some 95) of
        Inl e \<Rightarrow> Inl e
      | Inr d \<Rightarrow> Inr (d, l))"

definition truncate_header :: "ustring \<Rightarrow> int list \<Rightarrow> error + (ustring \<times> int list)" where
  "truncate_header avgmsg confidences =
     (if length avgmsg < 38 then Inr (avgmsg, confidences)
      else
        (case collect (map (truncate_candidate avgmsg confidences) (truncate_lengths (length avgmsg))) of
           Inl e \<Rightarrow> Inl e
         | Inr [] \<Rightarrow> Inl ValueError
         | Inr (c # cs) \<Rightarrow>
             (let winner = fold min cs c;
                  l = snd winner;
                  avgmsg1 = take l avgmsg;
                  confidences1 = take l confidences;
                  confidence_chars = length (filter (\<lambda>x. x \<noteq> 95) END_SEQUENCE);
                  end_confidence =
                    py_trunc ((of_nat confidence_chars * median confidences1 - of_int (fst winner))
                              / of_nat confidence_chars);
                  fips_count =
                    nat (py_trunc (of_int (int (length avgmsg1) - int (length END_SEQUENCE) - 8) / 7));
                  frame = frame_of fips_count
              in if length frame \<noteq> length avgmsg1 then Inl AssertionError
                 else lay_frame frame end_confidence [0..<length avgmsg1] (avgmsg1, confidences1))))"

section \<open>Splitting a header into its parts (SAME.py)\<close>

text \<open>The confidences cut along the parts; \<open>confidences[count]\<close> past the end raises
  IndexError.\<close>

fun align_confidences :: "ustring list \<Rightarrow> int list \<Rightarrow> error + int list list" where
  "align_confidences [] confidences = Inr []"
| "align_confidences (part # parts) confidences =
     (if length part \<le> length confidences then
        (case align_confidences parts (drop (length part) confidences) of
           Inl e \<Rightarrow> Inl e
         | Inr rest \<Rightarrow> Inr (take (length part) confidences # rest))
      else Inl IndexError)"

definition split_parts :: "ustring \<Rightarrow> nat \<Rightarrow> error + (ustring list \<times> nat)" where
  "split_parts message main_delimiter =
     (let main_delimiter_split = py_split message main_delimiter in
      if length main_delimiter_split = 2 then
        (let first_half_split = py_split (main_delimiter_split ! 0) 45;
             second_half_split = py_split (main_delimiter_split ! 1) 45
         in if length first_half_split < 3 then Inl IndexError
            else if length second_half_split < 3 then Inl IndexError
            else Inr ([45 # first_half_split ! 1, 45 # first_half_split ! 2]
                      @ map (\<lambda>p. 45 # p) (drop 3 first_half_split)
                      @ [43 # second_half_split ! 0, 45 # second_half_split ! 1,
                         45 # (second_half_split ! 2 @ [45])],
                      length first_half_split - 3))
      else Inr ([], 0))"

definition split_message :: "ustring \<Rightarrow> int list \<Rightarrow> error + (ustring list \<times> int list list \<times> nat)" where
  "split_message message0 confidences0 =
     (case truncate_header message0 confidences0 of
        Inl e \<Rightarrow> Inl e
      | Inr (message, confidences) \<Rightarrow>
          (case py_index message (int (length message) - 23) of
             Inl e \<Rightarrow> Inl e
           | Inr main_delimiter \<Rightarrow>
               (case split_parts message main_delimiter of
                  Inl e \<Rightarrow> Inl e
                | Inr (final_message, fips_counter) \<Rightarrow>
                    (case align_confidences final_message confidences of
                       Inl e \<Rightarrow> Inl e
                     | Inr final_confidences \<Rightarrow>
                         Inr (final_message, final_confidences, fips_counter)))))"

section \<open>MessageChunk (SAME.py)\<close>

text \<open>
  What the repository's \<open>nwr_data\<close> module and the standard library supply: the FIPS codes
  and the WFO call sign of a transmitter (\<open>None\<close> stands for the KeyError of an unknown
  transmitter), \<open>time.strftime('%j%H%M', time.gmtime(t))\<close>, the fields \<open>tm_year\<close> and
  \<open>tm_yday\<close> of \<open>time.gmtime(t)\<close>, and
  \<open>calendar.timegm(time.strptime(s, '%Y%j%H%M%Z'))\<close> with its ValueError.
\<close>

record env =
  nwr_get_counties :: "ustring option \<Rightarrow> ustring list option"
  nwr_get_wfo :: "ustring option \<Rightarrow> ustring option"
  strftime_jHM :: "rat \<Rightarrow> ustring"
  gmtime_year_yday :: "rat \<Rightarrow> int \<times> int"
  strptime_timegm :: "ustring \<Rightarrow> error + rat"

text \<open>\<open>sum_confidence\<close>: the eight bits of character \<open>j\<close> of header \<open>i\<close>, each added with
  the weight \<open>confidence[i]\<close> (indexed by the header, as the source does).\<close>

definition add_char_bits :: "nat \<Rightarrow> nat \<Rightarrow> int \<Rightarrow> int list \<times> int list \<Rightarrow> int list \<times> int list" where
  "add_char_bits j c w tf =
     fold (\<lambda>k (bitstrue, bitsfalse).
             if bit c k then (bitstrue[j * 8 + k := bitstrue ! (j * 8 + k) + w], bitsfalse)
             else (bitstrue, bitsfalse[j * 8 + k := bitsfalse ! (j * 8 + k) + w]))
          [0..<8] tf"

fun sum_header :: "nat \<Rightarrow> int list \<Rightarrow> nat \<Rightarrow> ustring \<Rightarrow> int list \<times> int list \<Rightarrow> error + (int list \<times> int list)" where
  "sum_header i conf j [] tf = Inr tf"
| "sum_header i conf j (c # cs) tf =
     (if c AND 0xFF \<noteq> 0 then
        (if j * 8 + 7 < length (fst tf) \<and> i < length conf
         then sum_header i conf (Suc j) cs (add_char_bits j c (conf ! i) tf)
         else Inl IndexError)
      else sum_header i conf (Suc j) cs tf)"

fun sum_headers :: "nat \<Rightarrow> ustring list \<Rightarrow> int list list \<Rightarrow> int list \<times> int list \<Rightarrow> error + (int list \<times> int list)" where
  "sum_headers i chars [] tf = Inr tf"
| "sum_headers i chars (c # confidences) tf =
     (if i < length chars then
        (case sum_header i c 0 (chars ! i) tf of
           Inl e \<Rightarrow> Inl e
         | Inr tf' \<Rightarrow> sum_headers (Suc i) chars confidences tf')
      else Inl IndexError)"

definition sum_confidence :: "ustring list \<Rightarrow> int list list \<Rightarrow> error + (int list \<times> int list)" where
  "sum_confidence chars confidences =
     (case confidences of
        [] \<Rightarrow> Inl IndexError
      | c0 # _ \<Rightarrow>
          (let size = length c0
           in sum_headers 0 chars confidences (replicate (8 * size) 0, replicate (8 * size) 0)))"

text \<open>\<open>assemble_chars\<close>: each character from the signs of its eight bit weights, its
  confidence the sum of their absolute values.\<close>

definition assemble_chars :: "int list \<Rightarrow> int list \<Rightarrow> error + (ustring \<times> int list)" where
  "assemble_chars bitstrue bitsfalse =
     (let n = length bitstrue div 8 in
      if n > 0 \<and> length bitsfalse < 8 * n then Inl IndexError
      else Inr (map (\<lambda>i. fold (\<lambda>j c. if bitstrue ! (i * 8 + j) - bitsfalse ! (i * 8 + j) > 0
                                        then c OR push_bit j 1 else c) [0..<8] 0) [0..<n],
                map (\<lambda>i. sum_list (map (\<lambda>j. \<bar>bitstrue ! (i * 8 + j) - bitsfalse ! (i * 8 + j)\<bar>) [0..<8]))
                    [0..<n]))"

text \<open>\<open>_reconcile_character\<close>: the nearest character of the pattern, by the weights of
  the bits it disagrees with.\<close>

definition bit_distance :: "int list \<Rightarrow> int list \<Rightarrow> nat \<Rightarrow> int" where
  "bit_distance bitstrue bitsfalse t =
     sum_list (map (\<lambda>j. if bit t j \<noteq> (bitstrue ! j - bitsfalse ! j > 0)
                         then \<bar>bitstrue ! j - bitsfalse ! j\<bar> else 0) [0..<8])"

definition reconcile_character :: "int list \<Rightarrow> int list \<Rightarrow> ustring \<Rightarrow> error + (int \<times> nat)" where
  "reconcile_character bitstrue bitsfalse pat =
     (if sum_list bitstrue = 0 \<and> length pat > 1 then Inr (0, 0)
      else if pat = [] then Inl IndexError
      else if length bitstrue < 8 \<or> length bitsfalse < 8 then Inl IndexError
      else
        (let near = sort (map (\<lambda>t. (bit_distance bitstrue bitsfalse t, t)) pat);
             confidence = (if length near = 1 \<or> fst (near ! 0) \<noteq> fst (near ! 1) then 2 else 1)
         in Inr (confidence, snd (near ! 0))))"

text \<open>
  \<open>approximate_chars\<close>: the loop over the characters, carrying the pattern counter. The
  characters and confidences returned so far are accumulated in order.
\<close>

definition pattern_at :: "int \<Rightarrow> error + pattern" where
  "pattern_at i = py_index SAME_CHARS i"

text \<open>The pattern of one position: a repeat marker joins two entries of the table, and
  raises TypeError when one of them is itself a marker.\<close>

definition position_pattern :: "nat \<Rightarrow> int \<Rightarrow> error + (int option \<times> ustring)" where
  "position_pattern byte_pattern_index byte_pattern_counter =
     (case pattern_at byte_pattern_counter of
        Inl e \<Rightarrow> Inl e
      | Inr (Chars p) \<Rightarrow> Inr (None, p)
      | Inr (Rep multipath) \<Rightarrow>
          (case pattern_at (int byte_pattern_index + multipath) of
             Inl e \<Rightarrow> Inl e
           | Inr p1 \<Rightarrow>
               (case pattern_at (int byte_pattern_index + 1) of
                  Inl e \<Rightarrow> Inl e
                | Inr p2 \<Rightarrow>
                    (case (p1, p2) of
                       (Chars a, Chars b) \<Rightarrow> Inr (Some multipath, a @ b)
                     | _ \<Rightarrow> Inl TypeError))))"

definition next_counter :: "nat \<Rightarrow> int \<Rightarrow> int option \<Rightarrow> nat \<Rightarrow> error + int" where
  "next_counter byte_pattern_index byte_pattern_counter multipath c =
     (case multipath of
        None \<Rightarrow> Inr (byte_pattern_counter + 1)
      | Some m \<Rightarrow>
          if m = 0 then Inr (byte_pattern_counter + 1)
          else
            (case pattern_at (int byte_pattern_index + 1) of
               Inl e \<Rightarrow> Inl e
             | Inr (Rep _) \<Rightarrow> Inl TypeError
             | Inr (Chars p) \<Rightarrow>
                 if c \<in> set p then Inr (byte_pattern_counter + 2)
                 else Inr (byte_pattern_counter + (m + 1))))"

fun approximate_loop ::
    "int list \<Rightarrow> int list \<Rightarrow> int list \<Rightarrow> nat \<Rightarrow> int \<Rightarrow> nat \<Rightarrow> ustring \<Rightarrow>
     error + (ustring \<times> int list)" where
  "approximate_loop confidences bitstrue bitsfalse byte_pattern_index byte_pattern_counter i [] =
     Inr ([], [])"
| "approximate_loop confidences bitstrue bitsfalse byte_pattern_index byte_pattern_counter i (c # cs) =
     (if i < length confidences then
        (case position_pattern byte_pattern_index byte_pattern_counter of
           Inl e \<Rightarrow> Inl e
         | Inr (multipath, pat) \<Rightarrow>
             (case (if c \<notin> set pat
                    then (case reconcile_character (slice bitstrue (i * 8) ((i + 1) * 8))
                                 (slice bitsfalse (i * 8) ((i + 1) * 8)) pat of
                            Inl e \<Rightarrow> Inl e
                          | Inr (bc, c') \<Rightarrow> Inr (bc * 8, c'))
                    else Inr (confidences ! i, c)) of
                Inl e \<Rightarrow> Inl e
              | Inr (byte_confidence, c1) \<Rightarrow>
                  (case next_counter byte_pattern_index byte_pattern_counter multipath c1 of
                     Inl e \<Rightarrow> Inl e
                   | Inr counter' \<Rightarrow>
                       (case approximate_loop confidences bitstrue bitsfalse byte_pattern_index
                               counter' (Suc i) cs of
                          Inl e \<Rightarrow> Inl e
                        | Inr (chars_to_return, confidences_to_return) \<Rightarrow>
                            Inr (c1 # chars_to_return,
                                 min 9 (byte_confidence div 8) # confidences_to_return)))))
      else Inl IndexError)"

definition approximate_chars ::
    "ustring \<Rightarrow> int list \<Rightarrow> int list \<Rightarrow> int list \<Rightarrow> nat \<Rightarrow> error + (ustring \<times> int list \<times> nat)" where
  "approximate_chars chars confidences bitstrue bitsfalse byte_pattern_index =
     (case approximate_loop confidences bitstrue bitsfalse byte_pattern_index
             (int byte_pattern_index) 0 chars of
        Inl e \<Rightarrow> Inl e
      | Inr (cs, confs) \<Rightarrow> Inr (cs, confs, byte_pattern_index))"

text \<open>The \<open>while fips_counter > 0\<close> loop of the constructor.\<close>

fun reconcile_fips ::
    "nat \<Rightarrow> ustring list \<Rightarrow> ustring \<times> int list \<times> bool \<Rightarrow> error + (ustring \<times> int list \<times> bool)" where
  "reconcile_fips 0 candidate_fips r = Inr r"
| "reconcile_fips (Suc n) candidate_fips (chars, confidences, matched) =
     (case reconcile_word chars confidences 1 (Plain candidate_fips) of
        Inl e \<Rightarrow> Inl e
      | Inr r \<Rightarrow> reconcile_fips n candidate_fips r)"

record MessageChunk =
  chunk_chars :: ustring
  chunk_confidences :: "int list"
  byte_confidence_index :: nat

text \<open>The word reconciliation the constructor picks by \<open>byte_confidence_index\<close>, with the
  offset it adds to the index after a match.\<close>

definition chunk_reconcile ::
    "ustring \<Rightarrow> int list \<Rightarrow> nat \<Rightarrow> nat \<Rightarrow> ustring list \<Rightarrow> ustring list \<Rightarrow> (rat \<times> ustring) list \<Rightarrow>
     error + ((ustring \<times> int list \<times> bool) \<times> nat)" where
  "chunk_reconcile chars confidences idx fips_counter candidate_fips wfo valid_times =
     (let with_offset = (\<lambda>r off. case r of Inl e \<Rightarrow> Inl e | Inr x \<Rightarrow> Inr (x, off)) in
      if idx \<le> 3 then with_offset (reconcile_word chars confidences 1 (Plain ORIGINATOR_CODES)) 4
      else if 4 \<le> idx \<and> idx \<le> 6 then
        with_offset (reconcile_word chars confidences 1 (Plain EVENT_CODES)) 4
      else if 7 \<le> idx \<and> idx \<le> 12 then
        with_offset (reconcile_fips fips_counter candidate_fips (chars, confidences, False)) 7
      else if 13 \<le> idx \<and> idx \<le> 17 then
        with_offset (reconcile_word chars confidences 1 (Weighted VALID_DURATIONS)) 4
      else if 18 \<le> idx \<and> idx \<le> 24 then
        with_offset (reconcile_word chars confidences 1 (Weighted valid_times)) 8
      else if 25 \<le> idx \<and> idx \<le> 29 then
        with_offset (reconcile_word chars confidences 1 (Plain wfo)) 5
      else if 30 \<le> idx \<and> idx \<le> 33 then
        with_offset (reconcile_word chars confidences 1 (Plain [ustr ''NWS''])) 5
      else Inr ((chars, confidences, False), 0))"

definition MessageChunk_init ::
    "env \<Rightarrow> ustring list \<Rightarrow> int list list \<Rightarrow> nat \<Rightarrow> ustring option \<Rightarrow> nat \<Rightarrow> (rat \<times> ustring) list \<Rightarrow>
     error + MessageChunk" where
  "MessageChunk_init E chars confidences byte_confidence_index0 transmitter fips_counter valid_times =
     (let candidate_fips = (case nwr_get_counties E transmitter of None \<Rightarrow> [] | Some cs \<Rightarrow> cs);
          wfo = (case nwr_get_wfo E transmitter of None \<Rightarrow> [] | Some w \<Rightarrow> [w])
      in case sum_confidence chars confidences of
           Inl e \<Rightarrow> Inl e
         | Inr (bitstrue, bitsfalse) \<Rightarrow>
             (case assemble_chars bitstrue bitsfalse of
                Inl e \<Rightarrow> Inl e
              | Inr (chars0, confidences0) \<Rightarrow>
                  (case chunk_reconcile chars0 confidences0 byte_confidence_index0 fips_counter
                          candidate_fips wfo valid_times of
                     Inl e \<Rightarrow> Inl e
                   | Inr ((chars1, confidences1, matched), offset) \<Rightarrow>
                       if \<not> matched then
                         (case approximate_chars chars1 confidences1 bitstrue bitsfalse
                                 byte_confidence_index0 of
                            Inl e \<Rightarrow> Inl e
                          | Inr (chars2, confidences2, idx) \<Rightarrow>
                              Inr \<lparr>chunk_chars = chars2, chunk_confidences = confidences2,
                                   byte_confidence_index = idx\<rparr>)
                       else
                         Inr \<lparr>chunk_chars = chars1, chunk_confidences = confidences1,
                              byte_confidence_index = byte_confidence_index0 + offset\<rparr>)))"

section \<open>average_message (SAME.py)\<close>

text \<open>
  A header is a triple of the received string, its confidences and its arrival time.
  \<open>SAMEMessage.add_header\<close> stores tuples; \<open>average_message\<close> assigns to \<open>i[0]\<close> and
  \<open>i[1]\<close>, which a tuple refuses with TypeError, so the kind of the container is kept.
\<close>

datatype hkind = PyTuple | PyList

type_synonym header = "hkind \<times> ustring \<times> int list \<times> rat"

text \<open>An element of \<open>valid_code_list\<close>: a code string, or a (weight, time) pair of
  \<open>valid_times\<close>, which the flattening leaves a tuple.\<close>

datatype code = CStr ustring | CTup rat ustring

definition check_if_valid_code :: "ustring list \<Rightarrow> code list \<Rightarrow> error + ustring option" where
  "check_if_valid_code codes valid_list =
     (if list_all (\<lambda>c. CStr c \<in> set valid_list) codes then
        (if length codes < 2 then Inl IndexError
         else if codes ! 0 = codes ! 1 then
           (if length codes < 3 then Inl IndexError
            else if codes ! 1 = codes ! 2 then Inr (Some (codes ! 0))
            else Inr None)
         else Inr None)
      else Inr None)"

definition make_valid_times :: "env \<Rightarrow> rat \<Rightarrow> (rat \<times> ustring) list" where
  "make_valid_times E t0 =
     map (\<lambda>(weight, offset). (weight, strftime_jHM E (t0 + 60 * offset)))
         [(1/2, -4), (7/10, -3), (9/10, -2), (11/10, -1), (1, 0)]"

definition make_valid_code_list :: "(rat \<times> ustring) list \<Rightarrow> ustring list \<Rightarrow> code list" where
  "make_valid_code_list valid_times wfo =
     map CStr DURATION_NUMBERS @ map CStr EVENT_CODES @ map CStr ORIGINATOR_CODES
     @ map (\<lambda>(w, s). CTup w s) valid_times @ map CStr EVENT_CODES @ map CStr wfo"

text \<open>The first loop: every header is split, then written back into its container. The
  fips counter that remains is the one of the last header.\<close>

fun split_headers :: "header list \<Rightarrow> error + ((ustring list \<times> int list list) list \<times> nat option)" where
  "split_headers [] = Inr ([], None)"
| "split_headers ((kind, msg, con, t) # hs) =
     (case split_message msg con of
        Inl e \<Rightarrow> Inl e
      | Inr (split_msg, split_con, fips_counter) \<Rightarrow>
          if kind = PyTuple then Inl TypeError
          else
            (case split_headers hs of
               Inl e \<Rightarrow> Inl e
             | Inr (rest, later) \<Rightarrow>
                 Inr ((split_msg, split_con) # rest,
                      (case later of None \<Rightarrow> Some fips_counter | Some f \<Rightarrow> Some f))))"

text \<open>
  The main loop over the parts of the first header, carrying the message, its confidences
  and \<open>byte_pattern_index\<close>. A code that all three headers agree on is copied from
  \<open>headers[i]\<close>, the header whose number is the number of the part.
\<close>

fun average_loop ::
    "env \<Rightarrow> (ustring list \<times> int list list) list \<Rightarrow> code list \<Rightarrow> ustring option \<Rightarrow> nat \<Rightarrow>
     (rat \<times> ustring) list \<Rightarrow> nat list \<Rightarrow> ustring \<times> int list \<times> nat \<Rightarrow>
     error + (ustring \<times> int list \<times> nat)" where
  "average_loop E hs valid_code_list transmitter fips_counter valid_times [] acc = Inr acc"
| "average_loop E hs valid_code_list transmitter fips_counter valid_times (i # is)
       (avgmsg, confidences, byte_pattern_index) =
     (if list_ex (\<lambda>h. length (fst h) \<le> i) hs then Inl IndexError
      else
        (case check_if_valid_code (map (\<lambda>h. drop 1 (fst h ! i)) hs) valid_code_list of
           Inl e \<Rightarrow> Inl e
         | Inr valid_code \<Rightarrow>
             (case (case valid_code of None \<Rightarrow> [] | Some c \<Rightarrow> c) of
                v # vs \<Rightarrow>
                  (if i < length hs then
                     average_loop E hs valid_code_list transmitter fips_counter valid_times is
                       (avgmsg @ fst (hs ! i) ! i,
                        confidences @ replicate (length (v # vs)) 9,
                        byte_pattern_index + length (v # vs))
                   else Inl IndexError)
              | [] \<Rightarrow>
                  (case MessageChunk_init E (map (\<lambda>h. fst h ! i) hs) (map (\<lambda>h. snd h ! i) hs)
                          byte_pattern_index transmitter fips_counter valid_times of
                     Inl e \<Rightarrow> Inl e
                   | Inr chunk \<Rightarrow>
                       average_loop E hs valid_code_list transmitter fips_counter valid_times is
                         (avgmsg @ chunk_chars chunk,
                          confidences @ map (min 9) (chunk_confidences chunk),
                          byte_confidence_index chunk)))))"

definition average_message :: "env \<Rightarrow> header list \<Rightarrow> ustring option \<Rightarrow> error + (ustring \<times> int list)" where
  "average_message E headers transmitter =
     (case headers of
        [] \<Rightarrow> Inl IndexError
      | (_, _, _, t0) # _ \<Rightarrow>
          (let valid_times = make_valid_times E t0;
               wfo = (case nwr_get_wfo E transmitter of None \<Rightarrow> [] | Some w \<Rightarrow> [w]);
               valid_code_list = make_valid_code_list valid_times wfo
           in case split_headers headers of
                Inl e \<Rightarrow> Inl e
              | Inr (hs, fc) \<Rightarrow>
                  (case hs of
                     [] \<Rightarrow> Inl IndexError
                   | h0 # _ \<Rightarrow>
                       (case average_loop E hs valid_code_list transmitter
                               (case fc of None \<Rightarrow> 0 | Some f \<Rightarrow> f) valid_times
                               [0..<length (fst h0)] ([], [], 0) of
                          Inl e \<Rightarrow> Inl e
                        | Inr (avgmsg, confidences, _) \<Rightarrow>
                            Inr (unicodify avgmsg, take (length avgmsg) confidences)))))"

section \<open>Numbers and text (Python built-ins)\<close>

text \<open>
  \<open>int(s)\<close> for a string: surrounding white space, an optional sign, and decimal digits
  that single underscores may separate; anything else raises ValueError. Only ASCII digits
  are read as digits here.
\<close>

definition is_space :: "nat \<Rightarrow> bool" where
  "is_space c = ((9 \<le> c \<and> c \<le> 13) \<or> (28 \<le> c \<and> c \<le> 32) \<or> c = 0x85 \<or> c = 0xA0)"

fun parse_digits :: "bool \<Rightarrow> nat \<Rightarrow> ustring \<Rightarrow> nat option" where
  "parse_digits prev acc [] = (if prev then Some acc else None)"
| "parse_digits prev acc (c # cs) =
     (if 48 \<le> c \<and> c \<le> 57 then parse_digits True (acc * 10 + (c - 48)) cs
      else if c = 95 \<and> prev then parse_digits False acc cs
      else None)"

definition py_int :: "ustring \<Rightarrow> error + int" where
  "py_int s =
     (let t = rev (dropWhile is_space (rev (dropWhile is_space s)));
          body = (case t of c # cs \<Rightarrow> if c = 43 \<or> c = 45 then cs else t | [] \<Rightarrow> []);
          negative = (case t of c # cs \<Rightarrow> c = 45 | [] \<Rightarrow> False)
      in case parse_digits False 0 body of
           None \<Rightarrow> Inl ValueError
         | Some n \<Rightarrow> Inr (if negative then - int n else int n))"

text \<open>\<open>str(n)\<close> for an integer.\<close>

function digits_of :: "nat \<Rightarrow> ustring" where
  "digits_of n = (if n < 10 then [48 + n] else digits_of (n div 10) @ [48 + n mod 10])"
  by pat_completeness auto
termination
  by (relation "measure id") auto

definition py_str :: "int \<Rightarrow> ustring" where
  "py_str i = (if i < 0 then 45 # digits_of (nat (- i)) else digits_of (nat i))"

section \<open>SAMEMessage (SAME.py)\<close>

text \<open>
  \<open>time.time()\<close> is read from a clock \<open>clk\<close>: the \<open>n\<close>-th reading of a run is \<open>clk n\<close>.
  The world counts the readings made so far and the calls of the received callback; the
  callback itself is opaque and is taken not to touch the message.
\<close>

record world =
  tick :: nat
  callbacks :: nat

definition time_time :: "(nat \<Rightarrow> rat) \<Rightarrow> world \<Rightarrow> rat \<times> world" where
  "time_time clk w = (clk (tick w), w\<lparr>tick := Suc (tick w)\<rparr>)"

text \<open>The timeout is a time or \<open>float("-inf")\<close>.\<close>

datatype xtime = NegInf | Fin rat

definition before :: "xtime \<Rightarrow> rat \<Rightarrow> bool" where
  "before x now = (case x of NegInf \<Rightarrow> True | Fin t \<Rightarrow> t < now)"

text \<open>The event id: the literal header, or the transmitter and start time that
  \<open>"%s-%.3f"\<close> formats.\<close>

datatype event_id = OfHeader ustring | OfStart "ustring option" rat

record SAMEMessage =
  transmitter :: "ustring option"
  headers :: "header list option"
  avg_message :: "(ustring \<times> int list) option"
  received_callback :: bool
  timeout :: xtime
  start_time :: rat
  published :: rat
  event_id :: event_id

type_synonym 'a outcome = "(error + 'a) \<times> world \<times> SAMEMessage"

definition fully_received ::
    "(nat \<Rightarrow> rat) \<Rightarrow> world \<Rightarrow> SAMEMessage \<Rightarrow> bool \<Rightarrow> bool \<Rightarrow> bool outcome" where
  "fully_received clk w0 m0 make_it_so extend_timeout =
     (let m1 = (if make_it_so then m0\<lparr>timeout := NegInf\<rparr> else m0);
          (now, w1) = time_time clk w0
      in case (if before (timeout m1) now then Inr True
               else (case headers m1 of None \<Rightarrow> Inl TypeError | Some hs \<Rightarrow> Inr (length hs \<ge> 3))) of
           Inl e \<Rightarrow> (Inl e, w1, m1)
         | Inr finished \<Rightarrow>
             (let (w2, m2) = (if finished \<and> received_callback m1
                              then (w1\<lparr>callbacks := Suc (callbacks w1)\<rparr>, m1\<lparr>received_callback := False\<rparr>)
                              else (w1, m1))
              in if \<not> finished \<and> extend_timeout
                 then (let (now2, w3) = time_time clk w2
                       in (Inr finished, w3, m2\<lparr>timeout := Fin (now2 + 6)\<rparr>))
                 else (Inr finished, w2, m2)))"

text \<open>\<open>add_header\<close>: a list of integer confidences is stored as its digit string, which
  is the same sequence.\<close>

definition add_header ::
    "(nat \<Rightarrow> rat) \<Rightarrow> world \<Rightarrow> SAMEMessage \<Rightarrow> ustring \<Rightarrow> int list \<Rightarrow> unit outcome" where
  "add_header clk w0 m0 header conf =
     (case fully_received clk w0 m0 False False of
        (Inl e, w1, m1) \<Rightarrow> (Inl e, w1, m1)
      | (Inr True, w1, m1) \<Rightarrow> (Inl ValueError, w1, m1)
      | (Inr False, w1, m1) \<Rightarrow>
          (let (when, w2) = time_time clk w1 in
           if conf = [] then (Inl IndexError, w2, m1)
           else
             (case headers m1 of
                None \<Rightarrow> (Inl AttributeError, w2, m1)
              | Some hs \<Rightarrow>
                  (Inr (), w2,
                   m1\<lparr>headers := Some (hs @ [(PyTuple, unicodify header, conf, when)]),
                      timeout := Fin (when + 6)\<rparr>))))"

definition default_prioritization :: "ustring \<Rightarrow> error + int" where
  "default_prioritization event_type =
     (if event_type = ustr ''EQW'' then Inr 60
      else if event_type = ustr ''TOR'' then Inr 55
      else if event_type = ustr ''SVR'' then Inr 50
      else if length event_type < 3 then Inl IndexError
      else if event_type ! 2 = 87 then Inr 50
      else if event_type = ustr ''EVI'' \<or> event_type ! 2 = 69 then Inr 30
      else if event_type ! 2 = 84 then Inr 10
      else Inr 20)"

text \<open>
  \<open>get_SAME_message\<close> where nothing has to be averaged: the cached header of a complete
  message, and for an incomplete one the call \<open>average_message(self.headers)\<close>, which lacks
  an argument and raises TypeError, or the empty result when no header came.
\<close>

definition stored_SAME_message ::
    "(nat \<Rightarrow> rat) \<Rightarrow> world \<Rightarrow> SAMEMessage \<Rightarrow>
     (world \<Rightarrow> SAMEMessage \<Rightarrow> (ustring \<times> int list) outcome) \<Rightarrow> (ustring \<times> int list) outcome" where
  "stored_SAME_message clk w0 m0 compute =
     (case fully_received clk w0 m0 False False of
        (Inl e, w1, m1) \<Rightarrow> (Inl e, w1, m1)
      | (Inr True, w1, m1) \<Rightarrow>
          (case avg_message m1 of
             Some a \<Rightarrow> (Inr a, w1, m1)
           | None \<Rightarrow> compute w1 m1)
      | (Inr False, w1, m1) \<Rightarrow>
          (case headers m1 of
             None \<Rightarrow> (Inl TypeError, w1, m1)
           | Some hs \<Rightarrow> if length hs > 0 then (Inl TypeError, w1, m1) else (Inr ([], []), w1, m1)))"

text \<open>Averaging the headers of a complete message and caching the result.\<close>

definition average_and_cache :: "env \<Rightarrow> world \<Rightarrow> SAMEMessage \<Rightarrow> (ustring \<times> int list) outcome" where
  "average_and_cache E w m =
     (case headers m of
        None \<Rightarrow> (Inl TypeError, w, m)
      | Some hs \<Rightarrow>
          (case average_message E hs (transmitter m) of
             Inl e \<Rightarrow> (Inl e, w, m)
           | Inr a \<Rightarrow> (Inr a, w, m\<lparr>avg_message := Some a\<rparr>)))"

text \<open>
  The calls \<open>get_event_type()\<close> and \<open>get_originator()\<close> that \<open>get_SAME_message\<close> makes for
  its log line right after caching: each is \<open>get_SAME_message\<close> again, now with the cache
  set. Writing the log line is not modelled.
\<close>

definition get_SAME_message ::
    "(nat \<Rightarrow> rat) \<Rightarrow> env \<Rightarrow> world \<Rightarrow> SAMEMessage \<Rightarrow> (ustring \<times> int list) outcome" where
  "get_SAME_message clk E w0 m0 =
     stored_SAME_message clk w0 m0
       (\<lambda>w1 m1.
          case average_and_cache E w1 m1 of
            (Inl e, w2, m2) \<Rightarrow> (Inl e, w2, m2)
          | (Inr a, w2, m2) \<Rightarrow>
              (case stored_SAME_message clk w2 m2 (average_and_cache E) of
                 (Inl e, w3, m3) \<Rightarrow> (Inl e, w3, m3)
               | (Inr t, w3, m3) \<Rightarrow>
                   (case default_prioritization (py_slice (fst t) 5 8) of
                      Inl e \<Rightarrow> (Inl e, w3, m3)
                    | Inr level \<Rightarrow>
                        (case stored_SAME_message clk w3 m3 (average_and_cache E) of
                           (Inl e, w4, m4) \<Rightarrow> (Inl e, w4, m4)
                         | (Inr orig, w4, m4) \<Rightarrow>
                             (case avg_message m4 of
                                Some r \<Rightarrow> (Inr r, w4, m4)
                              | None \<Rightarrow> (Inr a, w4, m4))))))"

text \<open>The accessors: each reads \<open>get_SAME_message()[0]\<close> and cuts it.\<close>

definition with_message ::
    "(nat \<Rightarrow> rat) \<Rightarrow> env \<Rightarrow> world \<Rightarrow> SAMEMessage \<Rightarrow> (ustring \<Rightarrow> error + 'a) \<Rightarrow> 'a outcome" where
  "with_message clk E w m f =
     (case get_SAME_message clk E w m of
        (Inl e, w1, m1) \<Rightarrow> (Inl e, w1, m1)
      | (Inr a, w1, m1) \<Rightarrow> (f (fst a), w1, m1))"

definition get_originator :: "(nat \<Rightarrow> rat) \<Rightarrow> env \<Rightarrow> world \<Rightarrow> SAMEMessage \<Rightarrow> ustring outcome" where
  "get_originator clk E w m = with_message clk E w m (\<lambda>s. Inr (py_slice s 1 4))"

definition get_event_type :: "(nat \<Rightarrow> rat) \<Rightarrow> env \<Rightarrow> world \<Rightarrow> SAMEMessage \<Rightarrow> ustring outcome" where
  "get_event_type clk E w m = with_message clk E w m (\<lambda>s. Inr (py_slice s 5 8))"

definition get_counties :: "(nat \<Rightarrow> rat) \<Rightarrow> env \<Rightarrow> world \<Rightarrow> SAMEMessage \<Rightarrow> ustring list outcome" where
  "get_counties clk E w m =
     with_message clk E w m (\<lambda>s. Inr (py_split (py_slice s 9 (py_find s 43)) 45))"

definition get_duration_str :: "(nat \<Rightarrow> rat) \<Rightarrow> env \<Rightarrow> world \<Rightarrow> SAMEMessage \<Rightarrow> ustring outcome" where
  "get_duration_str clk E w m =
     with_message clk E w m (\<lambda>s. let start = py_find s 43 + 1 in Inr (py_slice s start (start + 4)))"

definition get_start_time_str :: "(nat \<Rightarrow> rat) \<Rightarrow> env \<Rightarrow> world \<Rightarrow> SAMEMessage \<Rightarrow> ustring outcome" where
  "get_start_time_str clk E w m =
     with_message clk E w m (\<lambda>s. let start = py_find s 43 + 6 in Inr (py_slice s start (start + 7)))"

definition get_broadcaster :: "(nat \<Rightarrow> rat) \<Rightarrow> env \<Rightarrow> world \<Rightarrow> SAMEMessage \<Rightarrow> ustring outcome" where
  "get_broadcaster clk E w m =
     with_message clk E w m (\<lambda>s. Inr (py_slice s (py_find s 43 + 14) (-1)))"

definition get_duration_sec :: "(nat \<Rightarrow> rat) \<Rightarrow> env \<Rightarrow> world \<Rightarrow> SAMEMessage \<Rightarrow> int outcome" where
  "get_duration_sec clk E w m =
     (case get_duration_str clk E w m of
        (Inl e, w1, m1) \<Rightarrow> (Inl e, w1, m1)
      | (Inr d_str, w1, m1) \<Rightarrow>
          (case py_int (py_slice d_str 0 2) of
             Inl e \<Rightarrow> (Inl e, w1, m1)
           | Inr hh \<Rightarrow>
               (case py_int (py_slice d_str 2 4) of
                  Inl e \<Rightarrow> (Inl e, w1, m1)
                | Inr mm \<Rightarrow> (Inr (hh * 60 * 60 + mm * 60), w1, m1))))"

definition get_start_time_sec :: "(nat \<Rightarrow> rat) \<Rightarrow> env \<Rightarrow> world \<Rightarrow> SAMEMessage \<Rightarrow> rat outcome" where
  "get_start_time_sec clk E w m =
     (let (tm_year, tm_yday) = gmtime_year_yday E (start_time m) in
      case get_start_time_str clk E w m of
        (Inl e, w1, m1) \<Rightarrow> (Inl e, w1, m1)
      | (Inr s1, w1, m1) \<Rightarrow>
          (case py_int (py_slice s1 0 3) of
             Inl e \<Rightarrow> (Inl e, w1, m1)
           | Inr issue_jday \<Rightarrow>
               (let year = (if tm_yday < 10 \<and> issue_jday > 355 then tm_year - 1
                            else if tm_yday > 355 \<and> issue_jday < 10 then tm_year + 1
                            else tm_year)
                in case get_start_time_str clk E w1 m1 of
                     (Inl e, w2, m2) \<Rightarrow> (Inl e, w2, m2)
                   | (Inr s2, w2, m2) \<Rightarrow>
                       (strptime_timegm E (py_str year @ s2 @ ustr ''UTC''), w2, m2))))"

definition get_end_time_sec :: "(nat \<Rightarrow> rat) \<Rightarrow> env \<Rightarrow> world \<Rightarrow> SAMEMessage \<Rightarrow> rat outcome" where
  "get_end_time_sec clk E w m =
     (case get_start_time_sec clk E w m of
        (Inl e, w1, m1) \<Rightarrow> (Inl e, w1, m1)
      | (Inr s, w1, m1) \<Rightarrow>
          (case get_duration_sec clk E w1 m1 of
             (Inl e, w2, m2) \<Rightarrow> (Inl e, w2, m2)
           | (Inr d, w2, m2) \<Rightarrow> (Inr (s + of_int d), w2, m2)))"

text \<open>
  \<open>applies_to_fips\<close>. The slots are at \<open>i = 15, 22, ...\<close> below \<open>len(msg) - 20\<close>, so every
  index read (\<open>i - 6 .. i - 1\<close>) lies inside the message.
\<close>

definition fips_slots :: "nat \<Rightarrow> nat list" where
  "fips_slots n = (if n \<le> 35 then [] else map (\<lambda>k. 15 + 7 * k) [0..<(n - 36) div 7 + 1])"

definition slot_matches :: "ustring \<Rightarrow> ustring \<Rightarrow> nat \<Rightarrow> bool" where
  "slot_matches msg fips i =
     (list_all (\<lambda>x. msg ! (i - x) = fips ! (6 - x)) [1, 2, 3, 4, 5] \<and>
      (fips ! 0 = 48 \<or> msg ! (i - 6) = 48 \<or> fips ! 0 = msg ! (i - 6)))"

definition applies_to_fips ::
    "(nat \<Rightarrow> rat) \<Rightarrow> env \<Rightarrow> world \<Rightarrow> SAMEMessage \<Rightarrow> ustring \<Rightarrow> bool outcome" where
  "applies_to_fips clk E w m fips0 =
     (let fips = (if length fips0 = 5 then 48 # fips0 else fips0) in
      if length fips \<noteq> 6 then (Inl ValueError, w, m)
      else
        (case get_SAME_message clk E w m of
           (Inl e, w1, m1) \<Rightarrow> (Inl e, w1, m1)
         | (Inr (msg, conf), w1, m1) \<Rightarrow>
             (Inr (list_ex (slot_matches msg fips) (fips_slots (length msg))), w1, m1)))"

text \<open>The constructor. Its second argument is absent, a string to parse, or a list of
  legacy headers.\<close>

datatype headers_arg = NoHeaders | Literal ustring | Legacy "header list"

definition SAMEMessage_init ::
    "(nat \<Rightarrow> rat) \<Rightarrow> env \<Rightarrow> world \<Rightarrow> ustring option \<Rightarrow> headers_arg \<Rightarrow> bool \<Rightarrow>
     (error + SAMEMessage) \<times> world" where
  "SAMEMessage_init clk E w0 transmitter0 headers0 callback =
     (case (case transmitter0 of
              None \<Rightarrow> Inr (transmitter0, headers0)
            | Some [] \<Rightarrow> Inl IndexError
            | Some (c # cs) \<Rightarrow> if c = 45 then Inr (None, Literal (c # cs))
                                else Inr (transmitter0, headers0)) of
        Inl e \<Rightarrow> (Inl e, w0)
      | Inr (tr, hdrs) \<Rightarrow>
          (let base = \<lparr>transmitter = tr, headers = Some [], avg_message = None,
                       received_callback = callback, timeout = Fin 0, start_time = 0,
                       published = 0, event_id = OfStart tr 0\<rparr>
           in case hdrs of
                Literal (c # cs) \<Rightarrow>
                  (let (now, w1) = time_time clk w0;
                       m1 = base\<lparr>headers := None,
                                 avg_message := Some (c # cs, replicate (length (c # cs)) 9),
                                 start_time := now\<rparr>
                   in case get_start_time_sec clk E w1 m1 of
                        (Inl e, w2, m2) \<Rightarrow> (Inl e, w2)
                      | (Inr s, w2, m2) \<Rightarrow>
                          (Inr (m2\<lparr>start_time := s, timeout := NegInf, published := s,
                                    event_id := OfHeader (c # cs)\<rparr>), w2))
              | Legacy ((k, msg, conf, t) # hs) \<Rightarrow>
                  (Inr (base\<lparr>headers := Some ((k, msg, conf, t) # hs), start_time := t,
                              timeout := Fin (t + 6), published := t, event_id := OfStart tr t\<rparr>), w0)
              | _ \<Rightarrow>
                  (let (now, w1) = time_time clk w0
                   in (Inr (base\<lparr>start_time := now, timeout := Fin (now + 6), published := now,
                                  event_id := OfStart tr now\<rparr>), w1))))"

text \<open>The operations a caller can apply to a message, and a run of them; the results are
  dropped, the effects kept.\<close>

datatype operation =
    AddHeader ustring "int list"
  | FullyReceived bool bool
  | GetSAMEMessage
  | AppliesToFips ustring
  | GetOriginator | GetEventType | GetCounties | GetDurationStr | GetStartTimeStr
  | GetDurationSec | GetStartTimeSec | GetEndTimeSec | GetBroadcaster

fun apply_operation ::
    "(nat \<Rightarrow> rat) \<Rightarrow> env \<Rightarrow> operation \<Rightarrow> world \<times> SAMEMessage \<Rightarrow> world \<times> SAMEMessage" where
  "apply_operation clk E (AddHeader h c) (w, m) = snd (add_header clk w m h c)"
| "apply_operation clk E (FullyReceived make_it_so extend_timeout) (w, m) =
     snd (fully_received clk w m make_it_so extend_timeout)"
| "apply_operation clk E GetSAMEMessage (w, m) = snd (get_SAME_message clk E w m)"
| "apply_operation clk E (AppliesToFips f) (w, m) = snd (applies_to_fips clk E w m f)"
| "apply_operation clk E GetOriginator (w, m) = snd (get_originator clk E w m)"
| "apply_operation clk E GetEventType (w, m) = snd (get_event_type clk E w m)"
| "apply_operation clk E GetCounties (w, m) = snd (get_counties clk E w m)"
| "apply_operation clk E GetDurationStr (w, m) = snd (get_duration_str clk E w m)"
| "apply_operation clk E GetStartTimeStr (w, m) = snd (get_start_time_str clk E w m)"
| "apply_operation clk E GetDurationSec (w, m) = snd (get_duration_sec clk E w m)"
| "apply_operation clk E GetStartTimeSec (w, m) = snd (get_start_time_sec clk E w m)"
| "apply_operation clk E GetEndTimeSec (w, m) = snd (get_end_time_sec clk E w m)"
| "apply_operation clk E GetBroadcaster (w, m) = snd (get_broadcaster clk E w m)"

definition run_operations ::
    "(nat \<Rightarrow> rat) \<Rightarrow> env \<Rightarrow> operation list \<Rightarrow> world \<times> SAMEMessage \<Rightarrow> world \<times> SAMEMessage" where
  "run_operations clk E ops s = fold (apply_operation clk E) ops s"

text \<open>A clock that never runs backwards.\<close>

definition nondecreasing :: "(nat \<Rightarrow> rat) \<Rightarrow> bool" where
  "nondecreasing clk = (\<forall>i j. i \<le> j \<longrightarrow> clk i \<le> clk j)"

section \<open>EventMessageGroup and MessageCache (cache.py)\<close>

text \<open>
  A message as the cache sees it: its \<open>event_id\<close> and what its methods
  \<open>get_end_time_sec()\<close> and \<open>get_areas()\<close> return, taken to be fixed for a message the cache
  holds.
\<close>

record cached_message =
  msg_event_id :: event_id
  msg_end_time_sec :: rat
  msg_areas :: "ustring list"

record EventMessageGroup =
  messages :: "cached_message list"
  areas :: "ustring set"

definition group_add_message :: "EventMessageGroup \<Rightarrow> cached_message \<Rightarrow> error + EventMessageGroup" where
  "group_add_message g msg =
     (case messages g of
        first # _ \<Rightarrow>
          if msg_event_id msg \<noteq> msg_event_id first then Inl AssertionError
          else if msg \<in> set (messages g) then Inr g
          else Inr (g\<lparr>messages := messages g @ [msg], areas := areas g \<union> set (msg_areas msg)\<rparr>)
      | [] \<Rightarrow> Inr (g\<lparr>messages := messages g @ [msg], areas := areas g \<union> set (msg_areas msg)\<rparr>))"

text \<open>\<open>self.messages[-1].get_end_time_sec()\<close>: IndexError for a group without messages.\<close>

definition group_end_time_sec :: "EventMessageGroup \<Rightarrow> error + rat" where
  "group_end_time_sec g =
     (case messages g of [] \<Rightarrow> Inl IndexError | _ # _ \<Rightarrow> Inr (msg_end_time_sec (last (messages g))))"

text \<open>The dictionary of groups keeps its insertion order, the order the expiry sweep
  reads the clock in.\<close>

record MessageCache =
  cache_messages :: "(event_id \<times> EventMessageGroup) list"
  latlon :: "rat \<times> rat"
  county_fips :: ustring
  old_score :: int

datatype fired = update_score "cached_message option"

definition cache_add_message :: "MessageCache \<Rightarrow> cached_message \<Rightarrow> error + (MessageCache \<times> fired list)" where
  "cache_add_message c message =
     (case map_of (cache_messages c) (msg_event_id message) of
        None \<Rightarrow>
          (case group_add_message \<lparr>messages = [], areas = {}\<rparr> message of
             Inl e \<Rightarrow> Inl e
           | Inr holder \<Rightarrow>
               Inr (c\<lparr>cache_messages := cache_messages c @ [(msg_event_id message, holder)]\<rparr>,
                    [update_score (Some message)]))
      | Some g \<Rightarrow>
          (case group_add_message g message of
             Inl e \<Rightarrow> Inl e
           | Inr holder \<Rightarrow>
               Inr (c\<lparr>cache_messages :=
                        map (\<lambda>(k, v). if k = msg_event_id message then (k, holder) else (k, v))
                            (cache_messages c)\<rparr>,
                    [update_score (Some message)])))"

text \<open>The first expiry: a time, or \<open>float("inf")\<close> for an empty cache.\<close>

datatype expiry = At rat | Never

definition get_first_expiry :: "MessageCache \<Rightarrow> error + expiry" where
  "get_first_expiry c =
     (case collect (map (\<lambda>(k, v). group_end_time_sec v) (cache_messages c)) of
        Inl e \<Rightarrow> Inl e
      | Inr [] \<Rightarrow> Inr Never
      | Inr (t # ts) \<Rightarrow> Inr (At (fold min ts t)))"

definition expires_before :: "expiry \<Rightarrow> rat \<Rightarrow> bool" where
  "expires_before x now = (case x of Never \<Rightarrow> False | At t \<Rightarrow> t < now)"

text \<open>\<open>min(15 * 60, max(0, first_expiry - now))\<close>.\<close>

definition time_left :: "expiry \<Rightarrow> rat \<Rightarrow> rat" where
  "time_left x now = (case x of Never \<Rightarrow> 15 * 60 | At t \<Rightarrow> min (15 * 60) (max 0 (t - now)))"

text \<open>The dictionary comprehension of the sweep: one reading of the clock for each
  group, in order.\<close>

fun sweep ::
    "(nat \<Rightarrow> rat) \<Rightarrow> world \<Rightarrow> (event_id \<times> EventMessageGroup) list \<Rightarrow>
     (error + (event_id \<times> EventMessageGroup) list) \<times> world" where
  "sweep clk w [] = (Inr [], w)"
| "sweep clk w ((k, v) # kvs) =
     (case group_end_time_sec v of
        Inl e \<Rightarrow> (Inl e, w)
      | Inr t \<Rightarrow>
          (let (now, w1) = time_time clk w in
           case sweep clk w1 kvs of
             (Inl e, w2) \<Rightarrow> (Inl e, w2)
           | (Inr rest, w2) \<Rightarrow> (Inr (if t \<ge> now then (k, v) # rest else rest), w2)))"

text \<open>\<open>_generate_events\<close>: returns the cache, the time passed to
  \<open>event.reduce_time_left\<close> and the events fired.\<close>

definition generate_events ::
    "(nat \<Rightarrow> rat) \<Rightarrow> world \<Rightarrow> MessageCache \<Rightarrow> (error + (MessageCache \<times> rat \<times> fired list)) \<times> world" where
  "generate_events clk w0 c =
     (case get_first_expiry c of
        Inl e \<Rightarrow> (Inl e, w0)
      | Inr first_expiry \<Rightarrow>
          (let (now1, w1) = time_time clk w0;
               left = time_left first_expiry now1;
               (now2, w2) = time_time clk w1
           in if expires_before first_expiry now2 then
                (case sweep clk w2 (cache_messages c) of
                   (Inl e, w3) \<Rightarrow> (Inl e, w3)
                 | (Inr kept, w3) \<Rightarrow> (Inr (c\<lparr>cache_messages := kept\<rparr>, left, [update_score None]), w3))
              else (Inr (c, left, []), w2)))"

section \<open>A sample environment\<close>

text \<open>
  An environment for evaluating the model on concrete inputs: no transmitter is known, and
  the time functions are UTC calendar arithmetic. \<open>strptime\<close> is restricted to the
  fixed-width form \<open>YYYYJJJHHMM\<close> followed by \<open>UTC\<close>, which is what
  \<open>get_start_time_sec\<close> builds from a well-formed header; any other string is a
  ValueError here.
\<close>

definition days_before_year :: "int \<Rightarrow> int" where
  "days_before_year y =
     365 * (y - 1970) + ((y - 1) div 4 - (y - 1) div 100 + (y - 1) div 400) - 477"

definition civil_year_yday :: "int \<Rightarrow> int \<times> int" where
  "civil_year_yday days =
     (let z = days + 719468;
          era = z div 146097;
          doe = z mod 146097;
          yoe = (doe - doe div 1460 + doe div 36524 - doe div 146096) div 365;
          y = yoe + era * 400;
          doy = doe - (365 * yoe + yoe div 4 - yoe div 100);
          year = (if doy \<ge> 306 then y + 1 else y)
      in (year, days - days_before_year year + 1))"

definition pad :: "nat \<Rightarrow> int \<Rightarrow> ustring" where
  "pad n i = (let d = py_str i in replicate (n - length d) 48 @ d)"

definition utc_strftime_jHM :: "rat \<Rightarrow> ustring" where
  "utc_strftime_jHM t =
     (let secs = \<lfloor>t\<rfloor>; rem = secs mod 86400
      in pad 3 (snd (civil_year_yday (secs div 86400))) @ pad 2 (rem div 3600)
         @ pad 2 (rem mod 3600 div 60))"

definition utc_gmtime_year_yday :: "rat \<Rightarrow> int \<times> int" where
  "utc_gmtime_year_yday t = civil_year_yday (\<lfloor>t\<rfloor> div 86400)"

definition all_digits :: "ustring \<Rightarrow> bool" where
  "all_digits s = list_all (\<lambda>c. 48 \<le> c \<and> c \<le> 57) s"

definition utc_strptime_timegm :: "ustring \<Rightarrow> error + rat" where
  "utc_strptime_timegm s =
     (if length s = 14 \<and> all_digits (take 11 s) \<and> drop 11 s = ustr ''UTC'' then
        (case (py_int (slice s 0 4), py_int (slice s 4 7), py_int (slice s 7 9), py_int (slice s 9 11)) of
           (Inr y, Inr j, Inr h, Inr mi) \<Rightarrow>
             if 1 \<le> j \<and> j \<le> 366 \<and> h \<le> 23 \<and> mi \<le> 59
             then Inr (of_int ((days_before_year y + j - 1) * 86400 + h * 3600 + mi * 60))
             else Inl ValueError
         | _ \<Rightarrow> Inl ValueError)
      else Inl ValueError)"

definition sample_env :: env where
  "sample_env =
     \<lparr>nwr_get_counties = (\<lambda>_. None), nwr_get_wfo = (\<lambda>_. None),
      strftime_jHM = utc_strftime_jHM, gmtime_year_yday = utc_gmtime_year_yday,
      strptime_timegm = utc_strptime_timegm\<rparr>"

text \<open>The clean header of the specification's scenarios.\<close>

definition clean_header :: ustring where
  "clean_header = ustr ''-WXR-TOR-039173-039051-139069+0030-1591829-KCLE/NWS-''"

section \<open>Auxiliary notions for the proofs\<close>

text \<open>
  The signed weight of each bit (true minus false confidence), and the character
  \<open>__add__\<close> builds from a list of signed weights.
\<close>

definition bit_weights :: "ConfidentCharacter \<Rightarrow> int list" where
  "bit_weights cc =
     map (\<lambda>k. if bit (char cc) k then bitwise_confidence cc ! k else - (bitwise_confidence cc ! k)) [0..<8]"

definition of_bit_weights :: "int list \<Rightarrow> ConfidentCharacter" where
  "of_bit_weights d =
     \<lparr>char = merge_byte d, confidence = sum_list (merge_confidence d) div 8,
      bitwise_confidence = merge_confidence d\<rparr>"

section \<open>Properties\<close>

subsection \<open>unicodify\<close>

lemma and_255_mod: "(x::nat) AND 255 = x mod 256"
proof -
  have "x AND mask 8 = x mod 2 ^ 8"
    by (simp add: take_bit_eq_mask [symmetric] take_bit_eq_mod)
  moreover have "mask 8 = (255::nat)"
    by (simp add: mask_eq_exp_minus_1)
  ultimately show ?thesis by simp
qed

lemma or_high_byte:
  fixes c :: nat
  assumes "c < 256"
  shows "c OR push_bit 8 k = c + push_bit 8 k"
proof -
  have "take_bit 8 c = c"
    using assms by (simp add: take_bit_nat_eq_self)
  then have "c AND push_bit 8 k = take_bit 8 c AND push_bit 8 k"
    by simp
  also have "\<dots> = 0"
    by (rule bit_eqI) (auto simp add: bit_simps)
  finally show ?thesis
    by (simp add: disjunctive_add_eq_or)
qed

lemma or_2400: "c \<le> 31 \<Longrightarrow> (c::nat) OR 0x2400 = c + 0x2400"
  using or_high_byte [of c 36] by simp

lemma or_1E00: "((c::nat) AND 0xFF) OR 0x1E00 = c mod 256 + 0x1E00"
  using or_high_byte [of "c mod 256" 30] by (simp add: and_255_mod)

lemma unicodify_char_cases:
  assumes "c \<le> 255"
  shows "unicodify_char c =
           (if c = 0 then 0x2A00 else if c \<le> 31 then c + 0x2400
            else if c > 126 then c + 0x1E00 else c)"
proof -
  have "c mod 256 = c" using assms by simp
  then have "(c AND 0xFF) OR 0x1E00 = c + 0x1E00"
    using or_1E00 [of c] by simp
  then show ?thesis
    by (simp add: unicodify_char_def or_2400)
qed

lemma unicodify_char_props:
  assumes "c \<le> 255"
  shows "unicodify_char c AND 0xFF = c AND 0xFF \<and>
     (32 \<le> c \<and> c \<le> 126 \<longrightarrow> unicodify_char c = c) \<and>
     (c = 0 \<longrightarrow> unicodify_char c = 0x2A00) \<and>
     (1 \<le> c \<and> c \<le> 0x1F \<longrightarrow> 0x2401 \<le> unicodify_char c \<and> unicodify_char c \<le> 0x241F) \<and>
     (126 < c \<longrightarrow> 0x1E7F \<le> unicodify_char c \<and> unicodify_char c \<le> 0x1EFF) \<and>
     readable_code_point (unicodify_char c)"
proof -
  consider "c = 0" | "1 \<le> c \<and> c \<le> 31" | "32 \<le> c \<and> c \<le> 126" | "126 < c"
    by linarith
  then show ?thesis
  proof cases
    case 1
    then have u: "unicodify_char c = 10752"
      by (simp add: unicodify_char_def)
    have "(10752::nat) mod 256 = 0" by simp
    with 1 u show ?thesis
      by (simp add: and_255_mod readable_code_point_def)
  next
    case 2
    then have u: "unicodify_char c = c + 9216"
      using unicodify_char_cases [OF assms] by simp
    have "(c + 9216) mod 256 = c mod 256"
      using mod_mult_self1 [of c 36 256] by simp
    with 2 show ?thesis
      unfolding u and_255_mod readable_code_point_def by simp
  next
    case 3
    then have u: "unicodify_char c = c"
      using unicodify_char_cases [OF assms] by simp
    with 3 show ?thesis
      unfolding u readable_code_point_def by simp
  next
    case 4
    then have u: "unicodify_char c = c + 7680"
      using unicodify_char_cases [OF assms] by simp
    have "(c + 7680) mod 256 = c mod 256"
      using mod_mult_self1 [of c 30 256] by simp
    with 4 assms show ?thesis
      unfolding u and_255_mod readable_code_point_def by simp
  qed
qed

text \<open>
  Claim C10. For every string whose code points are at most 255, \<open>unicodify\<close> returns a
  string of the same length; at every index the low byte is kept, printable ASCII (32..126)
  is unchanged, NUL becomes the circled dot U+2A00, the control characters 1..31 land in the
  Control Pictures block, the codes above 126 land in U+1E7F..U+1EFF, and every output
  character is one of the printable targets.
\<close>

theorem unicodify_low_byte_printable:
  assumes "\<forall>c\<in>set s. c \<le> 255"
  shows "length (unicodify s) = length s \<and>
         (\<forall>i<length s.
            (unicodify s ! i) AND 0xFF = (s ! i) AND 0xFF \<and>
            (32 \<le> s ! i \<and> s ! i \<le> 126 \<longrightarrow> unicodify s ! i = s ! i) \<and>
            (s ! i = 0 \<longrightarrow> unicodify s ! i = 0x2A00) \<and>
            (1 \<le> s ! i \<and> s ! i \<le> 0x1F \<longrightarrow>
               0x2401 \<le> unicodify s ! i \<and> unicodify s ! i \<le> 0x241F) \<and>
            (126 < s ! i \<longrightarrow> 0x1E7F \<le> unicodify s ! i \<and> unicodify s ! i \<le> 0x1EFF) \<and>
            readable_code_point (unicodify s ! i))"
proof -
  have "length (unicodify s) = length s"
    by (simp add: unicodify_def)
  moreover have "(unicodify s ! i) AND 0xFF = (s ! i) AND 0xFF \<and>
            (32 \<le> s ! i \<and> s ! i \<le> 126 \<longrightarrow> unicodify s ! i = s ! i) \<and>
            (s ! i = 0 \<longrightarrow> unicodify s ! i = 0x2A00) \<and>
            (1 \<le> s ! i \<and> s ! i \<le> 0x1F \<longrightarrow>
               0x2401 \<le> unicodify s ! i \<and> unicodify s ! i \<le> 0x241F) \<and>
            (126 < s ! i \<longrightarrow> 0x1E7F \<le> unicodify s ! i \<and> unicodify s ! i \<le> 0x1EFF) \<and>
            readable_code_point (unicodify s ! i)" if "i < length s" for i
  proof -
    have "s ! i \<le> 255" using assms that by simp
    from unicodify_char_props [OF this] show ?thesis
      using that by (simp add: unicodify_def)
  qed
  ultimately show ?thesis by simp
qed

theorem unicodify_low_byte_printable_witness:
  "unicodify [65, 0, 7, 200] = [65, 0x2A00, 0x2407, 0x1EC8] \<and>
   length (unicodify [65, 0, 7, 200]) = length [65, 0, 7, 200::nat] \<and>
   (unicodify [65, 0, 7, 200] ! 3) AND 0xFF = 200 \<and>
   readable_code_point (unicodify [65, 0, 7, 200] ! 3)"
  using unicodify_low_byte_printable [of "[65, 0, 7, 200]"]
  by (simp add: unicodify_def unicodify_char_def readable_code_point_def)

subsection \<open>ConfidentCharacter\<close>

lemma bit_merge_fold:
  "bit (fold (\<lambda>i b. if d ! i > (0::int) then b OR push_bit i 1 else b) [0..<n] (0::nat)) k
     \<longleftrightarrow> k < n \<and> d ! k > 0"
  by (induction n) (auto simp add: bit_simps less_Suc_eq)

lemma bit_merge_byte: "bit (merge_byte d) k \<longleftrightarrow> k < 8 \<and> d ! k > 0"
  unfolding merge_byte_def by (rule bit_merge_fold)

lemma length_merge_confidence: "length (merge_confidence d) = 8"
  by (simp add: merge_confidence_def)

lemma nth_merge_confidence: "k < 8 \<Longrightarrow> merge_confidence d ! k = \<bar>d ! k\<bar>"
  unfolding merge_confidence_def by (simp del: upt_Suc add: nth_map_upt)

lemma length_bit_weights: "length (bit_weights cc) = 8"
  by (simp add: bit_weights_def)

lemma bit_weights_of_bit_weights:
  assumes "length d = 8"
  shows "bit_weights (of_bit_weights d) = d"
proof (rule nth_equalityI)
  show "length (bit_weights (of_bit_weights d)) = length d"
    using assms by (simp add: length_bit_weights)
next
  fix i assume "i < length (bit_weights (of_bit_weights d))"
  then have i: "i < 8" by (simp add: length_bit_weights)
  then show "bit_weights (of_bit_weights d) ! i = d ! i"
    unfolding bit_weights_def of_bit_weights_def
    by (simp del: upt_Suc add: nth_map_upt bit_merge_byte nth_merge_confidence)
qed

lemma add_short:
  "length (bitwise_confidence a) < 8 \<or> length (bitwise_confidence b) < 8 \<Longrightarrow>
   ConfidentCharacter_add a b = Inl IndexError"
  by (auto simp add: ConfidentCharacter_add_def get_bit_confidences_def)

lemma how_true_weights:
  "map2 (-) (map2 (+) (map (\<lambda>k. if bit (char a) k then bitwise_confidence a ! k else 0) [0..<8])
                      (map (\<lambda>k. if bit (char b) k then bitwise_confidence b ! k else 0) [0..<8]))
            (map2 (+) (map (\<lambda>k. if bit (char a) k then 0 else bitwise_confidence a ! k) [0..<8])
                      (map (\<lambda>k. if bit (char b) k then 0 else bitwise_confidence b ! k) [0..<8]))
   = map2 (+) (bit_weights a) (bit_weights b)"
  unfolding bit_weights_def
  by (rule nth_equalityI) (simp_all del: upt_Suc add: nth_map_upt)

lemma add_long:
  assumes "8 \<le> length (bitwise_confidence a)" "8 \<le> length (bitwise_confidence b)"
  shows "ConfidentCharacter_add a b = Inr (of_bit_weights (map2 (+) (bit_weights a) (bit_weights b)))"
  using assms
  unfolding ConfidentCharacter_add_def get_bit_confidences_def
  by (simp del: upt_Suc add: how_true_weights Let_def ConfidentCharacter_init_def
        length_merge_confidence of_bit_weights_def not_less [symmetric])

lemma map2_add_commute: "map2 (+) xs ys = map2 (+) ys (xs :: int list)"
  by (induction xs arbitrary: ys) (auto simp add: zip_Cons1 split: list.splits) 

lemma map2_add_assoc:
  "map2 (+) (map2 (+) xs ys) zs = map2 (+) xs (map2 (+) ys (zs :: int list))"
proof (induction xs arbitrary: ys zs)
  case Nil
  then show ?case by simp
next
  case (Cons x xs)
  then show ?case by (cases ys; cases zs) simp_all
qed

lemma length_map2_weights: "length (map2 (+) (bit_weights a) (bit_weights b)) = 8"
  by (simp add: length_bit_weights)

lemma bit_weights_sum:
  "bit_weights (of_bit_weights (map2 (+) (bit_weights a) (bit_weights b)))
     = map2 (+) (bit_weights a) (bit_weights b)"
  by (rule bit_weights_of_bit_weights) (simp add: length_bit_weights)

lemma bitwise_of_bit_weights: "length (bitwise_confidence (of_bit_weights d)) = 8"
  by (simp add: of_bit_weights_def length_merge_confidence)

lemma add_comm: "ConfidentCharacter_add a b = ConfidentCharacter_add b a"
proof (cases "8 \<le> length (bitwise_confidence a) \<and> 8 \<le> length (bitwise_confidence b)")
  case True
  then show ?thesis
    using map2_add_commute [of "bit_weights a" "bit_weights b"] by (simp add: add_long)
next
  case False
  then have "length (bitwise_confidence a) < 8 \<or> length (bitwise_confidence b) < 8"
    by linarith
  then show ?thesis
    using add_short [of a b] add_short [of b a] by auto
qed

lemma add_error:
  assumes "ConfidentCharacter_add x y = Inl e"
  shows "e = IndexError"
proof (cases "8 \<le> length (bitwise_confidence x) \<and> 8 \<le> length (bitwise_confidence y)")
  case True
  then show ?thesis using assms by (simp add: add_long)
next
  case False
  then have "length (bitwise_confidence x) < 8 \<or> length (bitwise_confidence y) < 8"
    by linarith
  then show ?thesis using assms add_short [of x y] by simp
qed

lemma add_assoc:
  "(case ConfidentCharacter_add a b of Inl e \<Rightarrow> Inl e | Inr ab \<Rightarrow> ConfidentCharacter_add ab c) =
   (case ConfidentCharacter_add b c of Inl e \<Rightarrow> Inl e | Inr bc \<Rightarrow> ConfidentCharacter_add a bc)"
proof -
  consider (long) "8 \<le> length (bitwise_confidence a)" "8 \<le> length (bitwise_confidence b)"
      "8 \<le> length (bitwise_confidence c)"
    | (a) "length (bitwise_confidence a) < 8"
    | (b) "length (bitwise_confidence b) < 8"
    | (c) "length (bitwise_confidence c) < 8"
    by linarith
  then show ?thesis
  proof cases
    case long
    have ab: "ConfidentCharacter_add (of_bit_weights (map2 (+) (bit_weights a) (bit_weights b))) c
        = Inr (of_bit_weights (map2 (+) (map2 (+) (bit_weights a) (bit_weights b)) (bit_weights c)))"
      using long(3)
      by (simp add: add_long bitwise_of_bit_weights bit_weights_sum)
    have bc: "ConfidentCharacter_add a (of_bit_weights (map2 (+) (bit_weights b) (bit_weights c)))
        = Inr (of_bit_weights (map2 (+) (bit_weights a) (map2 (+) (bit_weights b) (bit_weights c))))"
      using long(1)
      by (simp add: add_long bitwise_of_bit_weights bit_weights_sum)
    show ?thesis
      using long by (simp add: add_long ab bc map2_add_assoc)
  next
    case a
    then have 1: "ConfidentCharacter_add a x = Inl IndexError" for x
      by (simp add: add_short)
    show ?thesis
      by (auto simp add: 1 add_short a split: sum.splits dest: add_error)
  next
    case b
    then have "ConfidentCharacter_add a b = Inl IndexError" "ConfidentCharacter_add b c = Inl IndexError"
      by (simp_all add: add_short)
    then show ?thesis by simp
  next
    case c
    then have 1: "ConfidentCharacter_add x c = Inl IndexError" for x
      by (simp add: add_short)
    show ?thesis
      by (auto simp add: 1 add_short c split: sum.splits dest: add_error)
  qed
qed

lemma add_bits:
  assumes "get_bit_confidences a = Inr (ta, fa)" "get_bit_confidences b = Inr (tb, fb)"
  shows "\<exists>r. ConfidentCharacter_add a b = Inr r \<and>
           (\<forall>k<8. (bit (char r) k \<longleftrightarrow> 0 < ta ! k + tb ! k - (fa ! k + fb ! k)) \<and>
                   bitwise_confidence r ! k = \<bar>ta ! k + tb ! k - (fa ! k + fb ! k)\<bar>)"
proof -
  from assms have la: "8 \<le> length (bitwise_confidence a)" and lb: "8 \<le> length (bitwise_confidence b)"
    by (auto simp add: get_bit_confidences_def split: if_splits)
  have w: "map2 (+) (bit_weights a) (bit_weights b) ! k = ta ! k + tb ! k - (fa ! k + fb ! k)"
    if "k < 8" for k
    using assms that la lb
    by (auto simp add: get_bit_confidences_def bit_weights_def length_bit_weights
          simp del: upt_Suc split: if_splits)
  show ?thesis
    using w
    by (simp add: add_long [OF la lb] of_bit_weights_def bit_merge_byte nth_merge_confidence)
qed

text \<open>
  Claim C5. The merge \<open>__add__\<close> of ConfidentCharacters is commutative and associative
  (errors included: a character whose confidence list is too short makes both sides raise
  IndexError), and for two characters whose bit confidences can be read, bit \<open>k\<close> of the
  merged character is 1 iff the summed true weight minus the summed false weight \<open>d\<close> is
  positive, with merged bitwise confidence \<open>|d|\<close>.
\<close>

theorem ConfidentCharacter_add_comm_assoc:
  "ConfidentCharacter_add a b = ConfidentCharacter_add b a \<and>
   (case ConfidentCharacter_add a b of Inl e \<Rightarrow> Inl e | Inr ab \<Rightarrow> ConfidentCharacter_add ab c) =
   (case ConfidentCharacter_add b c of Inl e \<Rightarrow> Inl e | Inr bc \<Rightarrow> ConfidentCharacter_add a bc) \<and>
   (\<forall>ta fa tb fb.
      get_bit_confidences a = Inr (ta, fa) \<and> get_bit_confidences b = Inr (tb, fb) \<longrightarrow>
      (\<exists>r. ConfidentCharacter_add a b = Inr r \<and>
           (\<forall>k<8. (bit (char r) k \<longleftrightarrow> 0 < ta ! k + tb ! k - (fa ! k + fb ! k)) \<and>
                   bitwise_confidence r ! k = \<bar>ta ! k + tb ! k - (fa ! k + fb ! k)\<bar>)))"
  using add_comm add_assoc add_bits by blast

lemma add_example_left: "get_bit_confidences \<lparr>char = 65, confidence = 3, bitwise_confidence = [3, 3, 3, 3, 3, 3, 3, 3]\<rparr>
     = Inr ([3, 0, 0, 0, 0, 0, 3, 0], [0, 3, 3, 3, 3, 3, 0, 3])"
  by code_simp
lemma add_example_right: "get_bit_confidences \<lparr>char = 66, confidence = 5, bitwise_confidence = [5, 5, 5, 5, 5, 5, 5, 5]\<rparr>
     = Inr ([0, 5, 0, 0, 0, 0, 5, 0], [5, 0, 5, 5, 5, 5, 0, 5])"
  by code_simp
lemma add_example_sum: "ConfidentCharacter_add
      \<lparr>char = 65, confidence = 3, bitwise_confidence = [3, 3, 3, 3, 3, 3, 3, 3]\<rparr>
      \<lparr>char = 66, confidence = 5, bitwise_confidence = [5, 5, 5, 5, 5, 5, 5, 5]\<rparr>
     = Inr \<lparr>char = 66, confidence = 6, bitwise_confidence = [2, 2, 8, 8, 8, 8, 8, 8]\<rparr>"
  by code_simp
theorem ConfidentCharacter_add_comm_assoc_witness:
  "get_bit_confidences \<lparr>char = 65, confidence = 3, bitwise_confidence = [3, 3, 3, 3, 3, 3, 3, 3]\<rparr>
     = Inr ([3, 0, 0, 0, 0, 0, 3, 0], [0, 3, 3, 3, 3, 3, 0, 3]) \<and>
   get_bit_confidences \<lparr>char = 66, confidence = 5, bitwise_confidence = [5, 5, 5, 5, 5, 5, 5, 5]\<rparr>
     = Inr ([0, 5, 0, 0, 0, 0, 5, 0], [5, 0, 5, 5, 5, 5, 0, 5]) \<and>
   ConfidentCharacter_add
      \<lparr>char = 65, confidence = 3, bitwise_confidence = [3, 3, 3, 3, 3, 3, 3, 3]\<rparr>
      \<lparr>char = 66, confidence = 5, bitwise_confidence = [5, 5, 5, 5, 5, 5, 5, 5]\<rparr>
     = Inr \<lparr>char = 66, confidence = 6, bitwise_confidence = [2, 2, 8, 8, 8, 8, 8, 8]\<rparr>"
  using ConfidentCharacter_add_comm_assoc
    [of "\<lparr>char = 65, confidence = 3, bitwise_confidence = [3, 3, 3, 3, 3, 3, 3, 3]\<rparr>"
        "\<lparr>char = 66, confidence = 5, bitwise_confidence = [5, 5, 5, 5, 5, 5, 5, 5]\<rparr>"
        "\<lparr>char = 66, confidence = 5, bitwise_confidence = [5, 5, 5, 5, 5, 5, 5, 5]\<rparr>"]
    add_example_left add_example_right add_example_sum
  by simp

subsection \<open>The word reconciler\<close>

text \<open>
  Claim C3 (the code departs from it). \<open>_reconcile_word\<close> rebinds \<open>word\<close> to the slice
  and then to the winning candidate: on a match at \<open>start = 1\<close> it raises IndexError, without
  a match it returns the slice instead of the word, and on a match at \<open>start = 0\<close> it
  returns the candidate alone, dropping the rest of the word.
\<close>

theorem reconcile_word_loses_the_word:
  "reconcile_word (ustr ''-WXR-'') [9, 9, 9, 9, 9] 1 (Plain ORIGINATOR_CODES) = Inl IndexError \<and>
   reconcile_word (ustr ''-ZZZ-'') [9, 9, 9, 9, 9] 1 (Plain ORIGINATOR_CODES)
     = Inr (ustr ''ZZZ'', [9, 9, 9, 9, 9], False) \<and>
   reconcile_word (ustr ''WXR-'') [9, 9, 9, 9] 0 (Plain ORIGINATOR_CODES)
     = Inr (ustr ''WXR'', [1, 1, 1, 9], True)"
  by code_simp


subsection \<open>average_message\<close>

lemma originator_valid:
  "c \<in> set ORIGINATOR_CODES \<Longrightarrow> CStr c \<in> set (make_valid_code_list vt wfo)"
  by (simp add: make_valid_code_list_def)

lemma event_valid:
  "c \<in> set EVENT_CODES \<Longrightarrow> CStr c \<in> set (make_valid_code_list vt wfo)"
  by (simp add: make_valid_code_list_def)

lemma split_headers_tuple:
  "split_message H conf = Inr r \<Longrightarrow> split_headers ((PyTuple, H, conf, t) # rest) = Inl TypeError"
  by (cases r) simp

lemma average_message_tuple:
  assumes "split_message H conf = Inr r"
  shows "average_message E ((PyTuple, H, conf, t) # rest) tr = Inl TypeError"
  using split_headers_tuple [OF assms] by (simp add: average_message_def Let_def)

lemma split_headers_one:
  "split_message H conf = Inr (ps, cs, fc) \<Longrightarrow>
   split_headers [(PyList, H, conf, t)] = Inr ([(ps, cs)], Some fc)"
  by simp

lemma split_headers_two:
  "split_message H conf = Inr (ps, cs, fc) \<Longrightarrow>
   split_headers [(PyList, H, conf, t), (PyList, H, conf, t)] = Inr ([(ps, cs), (ps, cs)], Some fc)"
  by simp

lemma split_headers_three:
  "split_message H conf = Inr (ps, cs, fc) \<Longrightarrow>
   split_headers [(PyList, H, conf, t), (PyList, H, conf, t), (PyList, H, conf, t)]
     = Inr ([(ps, cs), (ps, cs), (ps, cs)], Some fc)"
  by simp

lemma average_message_one:
  assumes "split_message H conf = Inr (p # ps, cs, fc)" and "drop 1 p \<in> set ORIGINATOR_CODES"
  shows "average_message E [(PyList, H, conf, t)] tr = Inl IndexError"
  using split_headers_one [OF assms(1)] originator_valid [OF assms(2)]
  by (simp add: average_message_def Let_def upt_conv_Cons check_if_valid_code_def del: upt_Suc)

lemma average_message_two:
  assumes "split_message H conf = Inr (p # ps, cs, fc)" and "drop 1 p \<in> set ORIGINATOR_CODES"
  shows "average_message E [(PyList, H, conf, t), (PyList, H, conf, t)] tr = Inl IndexError"
  using split_headers_two [OF assms(1)] originator_valid [OF assms(2)]
  by (simp add: average_message_def Let_def upt_conv_Cons check_if_valid_code_def del: upt_Suc)

lemma split_clean_header:
  "split_message clean_header (replicate 52 9) =
     Inr (map ustr [''-WXR'', ''-TOR'', ''-039173'', ''-039051'', ''-139069'', ''+0030'',
                    ''-1591829'', ''-KCLE/NWS-''],
          [[9, 9, 9, 9], [9, 9, 9, 9], [9, 9, 9, 9, 9, 9, 9], [9, 9, 9, 9, 9, 9, 9],
           [9, 9, 9, 9, 9, 9, 9], [9, 9, 9, 9, 9], [9, 9, 9, 9, 9, 9, 9, 9],
           [9, 9, 9, 9, 9, 9, 9, 9, 9, 9]], 3)"
  by code_simp

lemma WXR_originator: "drop 1 (ustr ''-WXR'') \<in> set ORIGINATOR_CODES"
  by (simp add: ORIGINATOR_CODES_def ustr_def)

text \<open>
  Claim C1 (the code departs from it). \<open>average_message\<close> does not return the header
  for one, two or three identical clean copies: for every header that splits into parts whose
  first part carries an originator code, one copy and two copies (as lists) raise IndexError
  in \<open>check_if_valid_code\<close>, which reads \<open>codes[1]\<close> and \<open>codes[2]\<close>, and copies
  held as tuples, the way \<open>add_header\<close> stores them, raise TypeError at \<open>i[0] = split_msg\<close>.
\<close>

theorem average_message_copies_raise:
  assumes "split_message H conf = Inr (p # ps, cs, fc)" and "drop 1 p \<in> set ORIGINATOR_CODES"
  shows "average_message E [(PyList, H, conf, t)] tr = Inl IndexError \<and>
         average_message E [(PyList, H, conf, t), (PyList, H, conf, t)] tr = Inl IndexError \<and>
         average_message E ((PyTuple, H, conf, t) # rest) tr = Inl TypeError"
  using average_message_one [OF assms] average_message_two [OF assms]
    average_message_tuple [OF assms(1)]
  by simp

theorem average_message_copies_raise_witness:
  "average_message sample_env [(PyList, clean_header, replicate 52 9, 1465324200)] None
     = Inl IndexError \<and>
   average_message sample_env [(PyList, clean_header, replicate 52 9, 1465324200),
                               (PyList, clean_header, replicate 52 9, 1465324200)] None
     = Inl IndexError \<and>
   average_message sample_env [(PyTuple, clean_header, replicate 52 9, 1465324200),
                               (PyTuple, clean_header, replicate 52 9, 1465324200),
                               (PyTuple, clean_header, replicate 52 9, 1465324200)] None
     = Inl TypeError"
  using average_message_copies_raise [OF split_clean_header [unfolded list.map] WXR_originator]
  by simp

subsection \<open>SAMEMessage\<close>

lemma average_message_empty: "average_message E [] tr = Inl IndexError"
  by (simp add: average_message_def)

lemma fully_received_plain:
  "fully_received clk w m False False =
     (if before (timeout m) (clk (tick w))
      then (Inr True,
            if received_callback m
            then (w\<lparr>tick := Suc (tick w), callbacks := Suc (callbacks w)\<rparr>, m\<lparr>received_callback := False\<rparr>)
            else (w\<lparr>tick := Suc (tick w)\<rparr>, m))
      else (case headers m of
              None \<Rightarrow> (Inl TypeError, w\<lparr>tick := Suc (tick w)\<rparr>, m)
            | Some hs \<Rightarrow>
                (Inr (3 \<le> length hs),
                 if 3 \<le> length hs \<and> received_callback m
                 then (w\<lparr>tick := Suc (tick w), callbacks := Suc (callbacks w)\<rparr>, m\<lparr>received_callback := False\<rparr>)
                 else (w\<lparr>tick := Suc (tick w)\<rparr>, m))))"
  by (simp add: fully_received_def time_time_def Let_def split: option.splits)

text \<open>
  Claim C8 (the code departs from it). For a message without headers and without a cached
  average, \<open>get_SAME_message\<close> returns the empty pair only while the timeout has not
  passed; once \<open>timeout < now\<close> it calls \<open>average_message\<close> on the empty list, which
  raises IndexError at \<open>headers[0][2]\<close>.
\<close>

theorem get_SAME_message_no_headers:
  assumes "headers m = Some []" and "avg_message m = None"
  shows "fst (get_SAME_message clk E w m) =
           (if before (timeout m) (clk (tick w)) then Inl IndexError else Inr ([], []))"
  using assms
  by (simp add: get_SAME_message_def stored_SAME_message_def fully_received_plain
        average_and_cache_def average_message_empty)

theorem get_SAME_message_no_headers_witness:
  "SAMEMessage_init (\<lambda>n. 10 * of_nat n) sample_env \<lparr>tick = 0, callbacks = 0\<rparr>
       (Some (ustr ''KCLE'')) NoHeaders False
     = (Inr \<lparr>transmitter = Some (ustr ''KCLE''), headers = Some [], avg_message = None,
             received_callback = False, timeout = Fin 6, start_time = 0, published = 0,
             event_id = OfStart (Some (ustr ''KCLE'')) 0\<rparr>,
        \<lparr>tick = 1, callbacks = 0\<rparr>) \<and>
   fst (get_SAME_message (\<lambda>n. 10 * of_nat n) sample_env \<lparr>tick = 1, callbacks = 0\<rparr>
          \<lparr>transmitter = Some (ustr ''KCLE''), headers = Some [], avg_message = None,
           received_callback = False, timeout = Fin 6, start_time = 0, published = 0,
           event_id = OfStart (Some (ustr ''KCLE'')) 0\<rparr>)
     = Inl IndexError"
  using get_SAME_message_no_headers
    [of "\<lparr>transmitter = Some (ustr ''KCLE''), headers = Some [], avg_message = None,
           received_callback = False, timeout = Fin 6, start_time = 0, published = 0,
           event_id = OfStart (Some (ustr ''KCLE'')) 0\<rparr>"
        "\<lambda>n. 10 * of_nat n" sample_env "\<lparr>tick = 1, callbacks = 0\<rparr>"]
  by (simp add: SAMEMessage_init_def time_time_def before_def ustr_def)

lemma stored_cached:
  assumes "avg_message m = Some a"
  shows "stored_SAME_message clk w m compute =
           (case fully_received clk w m False False of
              (Inl e, w1, m1) \<Rightarrow> (Inl e, w1, m1)
            | (Inr True, w1, m1) \<Rightarrow> (Inr a, w1, m1)
            | (Inr False, w1, m1) \<Rightarrow>
                (case headers m1 of
                   None \<Rightarrow> (Inl TypeError, w1, m1)
                 | Some hs \<Rightarrow> if length hs > 0 then (Inl TypeError, w1, m1) else (Inr ([], []), w1, m1)))"
  using assms
  by (auto simp add: stored_SAME_message_def fully_received_plain split: option.splits)

lemma get_SAME_cached_fields:
  assumes "avg_message m = Some a" and "get_SAME_message clk E w m = (r, w', m')"
  shows "avg_message m' = Some a \<and> timeout m' = timeout m \<and> headers m' = headers m \<and>
         transmitter m' = transmitter m \<and> start_time m' = start_time m"
  using assms
  by (auto simp add: get_SAME_message_def stored_cached fully_received_plain
        split: option.splits if_splits bool.splits)

lemma get_SAME_latched:
  assumes "avg_message m = Some a" and "timeout m = NegInf"
  shows "fst (get_SAME_message clk E w m) = Inr a"
  using assms
  by (simp add: get_SAME_message_def stored_cached fully_received_plain before_def)

lemma with_message_fields:
  assumes "avg_message m = Some a" and "with_message clk E w m f = (r, w', m')"
  shows "avg_message m' = Some a \<and> timeout m' = timeout m \<and> headers m' = headers m \<and>
         transmitter m' = transmitter m \<and> start_time m' = start_time m"
proof (cases "get_SAME_message clk E w m")
  case (fields r0 w0 m0)
  from get_SAME_cached_fields [OF assms(1) fields] assms(2) fields show ?thesis
    by (auto simp add: with_message_def split: sum.splits)
qed

lemma get_start_time_sec_fields:
  assumes "avg_message m = Some a" and "get_start_time_sec clk E w m = (r, w', m')"
  shows "avg_message m' = Some a \<and> timeout m' = timeout m \<and> headers m' = headers m"
proof (cases "get_start_time_str clk E w m")
  case (fields r1 w1 m1)
  have f1: "avg_message m1 = Some a \<and> timeout m1 = timeout m \<and> headers m1 = headers m"
    using with_message_fields [OF assms(1) fields [unfolded get_start_time_str_def]] by simp
  show ?thesis
  proof (cases "get_start_time_str clk E w1 m1")
    case inner: (fields r2 w2 m2)
    have a1: "avg_message m1 = Some a" using f1 by simp
    have f2: "avg_message m2 = Some a \<and> timeout m2 = timeout m1 \<and> headers m2 = headers m1"
      using with_message_fields [OF a1 inner [unfolded get_start_time_str_def]] by simp
    from assms(2) fields inner f1 f2 show ?thesis
      by (auto simp add: get_start_time_sec_def Let_def split: prod.splits sum.splits)
  qed
qed

lemma init_literal_fields:
  assumes "SAMEMessage_init clk E w0 (Some (45 # cs)) hdrs cb = (Inr m, w1)"
  shows "avg_message m = Some (45 # cs, replicate (length (45 # cs)) 9) \<and> timeout m = NegInf"
proof -
  obtain now wa where t: "time_time clk w0 = (now, wa)"
    by (cases "time_time clk w0")
  define m1 where "m1 = \<lparr>transmitter = None, headers = None,
      avg_message = Some (45 # cs, replicate (length (45 # cs)) 9),
      received_callback = cb, timeout = Fin 0, start_time = now, published = 0,
      event_id = OfStart None 0\<rparr>"
  obtain r w2 m2 where g: "get_start_time_sec clk E wa m1 = (r, w2, m2)"
    by (cases "get_start_time_sec clk E wa m1")
  have a1: "avg_message m1 = Some (45 # cs, replicate (length (45 # cs)) 9)"
    by (simp add: m1_def)
  from get_start_time_sec_fields [OF a1 g]
  have f: "avg_message m2 = Some (45 # cs, replicate (length (45 # cs)) 9)" by simp
  from assms t g f show ?thesis
    by (auto simp add: SAMEMessage_init_def m1_def Let_def split: sum.splits)
qed

lemma with_message_latched:
  assumes "avg_message m = Some a" and "timeout m = NegInf"
  shows "\<exists>w' m'. with_message clk E w m f = (f (fst a), w', m')"
  using assms
  by (simp add: with_message_def get_SAME_message_def stored_cached fully_received_plain before_def)

lemma clean_header_cons: "clean_header = 45 # tl clean_header"
  by code_simp

lemma clean_header_length: "length clean_header = 52"
  by code_simp

lemma clean_header_fields:
  "py_find clean_header 43 = 29"
  "py_slice clean_header 1 4 = ustr ''WXR''"
  "py_slice clean_header 5 8 = ustr ''TOR''"
  "py_split (py_slice clean_header 9 29) 45 = [ustr ''039173'', ustr ''039051'', ustr ''139069'']"
  "py_slice clean_header 30 34 = ustr ''0030''"
  "py_slice clean_header 35 42 = ustr ''1591829''"
  by code_simp+

lemma duration_0030:
  "py_int (py_slice (ustr ''0030'') 0 2) = Inr 0" "py_int (py_slice (ustr ''0030'') 2 4) = Inr 30"
  by code_simp+

text \<open>
  Claim C2. A SAMEMessage constructed from the literal
  \<open>-WXR-TOR-039173-039051-139069+0030-1591829-KCLE/NWS-\<close> answers, at any later time and
  in any environment: originator \<open>WXR\<close>, event type \<open>TOR\<close>, counties
  \<open>[039173, 039051, 139069]\<close>, duration string \<open>0030\<close>, duration 1800 seconds and
  start time string \<open>1591829\<close>.
\<close>

theorem literal_message_accessors:
  assumes "SAMEMessage_init clk E w0 (Some clean_header) hdrs cb = (Inr m, w1)"
  shows "fst (get_originator clk' E' w m) = Inr (ustr ''WXR'') \<and>
         fst (get_event_type clk' E' w m) = Inr (ustr ''TOR'') \<and>
         fst (get_counties clk' E' w m) = Inr [ustr ''039173'', ustr ''039051'', ustr ''139069''] \<and>
         fst (get_duration_str clk' E' w m) = Inr (ustr ''0030'') \<and>
         fst (get_duration_sec clk' E' w m) = Inr 1800 \<and>
         fst (get_start_time_str clk' E' w m) = Inr (ustr ''1591829'')"
proof -
  have "SAMEMessage_init clk E w0 (Some (45 # tl clean_header)) hdrs cb = (Inr m, w1)"
    using assms clean_header_cons by simp
  from init_literal_fields [OF this]
  have a: "avg_message m = Some (clean_header, replicate 52 9)" and t: "timeout m = NegInf"
    using clean_header_cons clean_header_length by simp_all
  note L = with_message_latched [OF a t]
  have 1: "fst (get_originator clk' E' w m) = Inr (ustr ''WXR'')"
    using L [of clk' E' w "\<lambda>s. Inr (py_slice s 1 4)"]
    by (auto simp add: get_originator_def clean_header_fields)
  have 2: "fst (get_event_type clk' E' w m) = Inr (ustr ''TOR'')"
    using L [of clk' E' w "\<lambda>s. Inr (py_slice s 5 8)"]
    by (auto simp add: get_event_type_def clean_header_fields)
  have 3: "fst (get_counties clk' E' w m) = Inr [ustr ''039173'', ustr ''039051'', ustr ''139069'']"
    using L [of clk' E' w "\<lambda>s. Inr (py_split (py_slice s 9 (py_find s 43)) 45)"]
    by (auto simp add: get_counties_def clean_header_fields)
  obtain w' m' where d: "get_duration_str clk' E' w m = (Inr (ustr ''0030''), w', m')"
    using L [of clk' E' w "\<lambda>s. let start = py_find s 43 + 1 in Inr (py_slice s start (start + 4))"]
    by (auto simp add: get_duration_str_def Let_def clean_header_fields)
  have 5: "fst (get_duration_sec clk' E' w m) = Inr 1800"
    by (simp add: get_duration_sec_def d duration_0030)
  have 6: "fst (get_start_time_str clk' E' w m) = Inr (ustr ''1591829'')"
    using L [of clk' E' w "\<lambda>s. let start = py_find s 43 + 6 in Inr (py_slice s start (start + 7))"]
    by (auto simp add: get_start_time_str_def Let_def clean_header_fields)
  from 1 2 3 d 5 6 show ?thesis by simp
qed

lemma init_clean_message:
  "SAMEMessage_init (\<lambda>n. 1465324200 + of_nat n) sample_env \<lparr>tick = 0, callbacks = 0\<rparr>
       (Some clean_header) NoHeaders False
     = (Inr \<lparr>transmitter = None, headers = None,
             avg_message = Some (clean_header, replicate 52 9),
             received_callback = False, timeout = NegInf, start_time = 1465324140,
             published = 1465324140, event_id = OfHeader clean_header\<rparr>,
        \<lparr>tick = 3, callbacks = 0\<rparr>)"
  by code_simp

theorem literal_message_accessors_witness:
  "SAMEMessage_init (\<lambda>n. 1465324200 + of_nat n) sample_env \<lparr>tick = 0, callbacks = 0\<rparr>
       (Some clean_header) NoHeaders False
     = (Inr \<lparr>transmitter = None, headers = None,
             avg_message = Some (clean_header, replicate 52 9),
             received_callback = False, timeout = NegInf, start_time = 1465324140,
             published = 1465324140, event_id = OfHeader clean_header\<rparr>,
        \<lparr>tick = 3, callbacks = 0\<rparr>) \<and>
   fst (get_originator (\<lambda>n. 1465324200 + of_nat n) sample_env \<lparr>tick = 3, callbacks = 0\<rparr>
          \<lparr>transmitter = None, headers = None,
           avg_message = Some (clean_header, replicate 52 9),
           received_callback = False, timeout = NegInf, start_time = 1465324140,
           published = 1465324140, event_id = OfHeader clean_header\<rparr>) = Inr (ustr ''WXR'') \<and>
   fst (get_duration_sec (\<lambda>n. 1465324200 + of_nat n) sample_env \<lparr>tick = 3, callbacks = 0\<rparr>
          \<lparr>transmitter = None, headers = None,
           avg_message = Some (clean_header, replicate 52 9),
           received_callback = False, timeout = NegInf, start_time = 1465324140,
           published = 1465324140, event_id = OfHeader clean_header\<rparr>) = Inr 1800"
  using literal_message_accessors [OF init_clean_message,
      of "\<lambda>n. 1465324200 + of_nat n" sample_env "\<lparr>tick = 3, callbacks = 0\<rparr>"]
    init_clean_message
  by simp

text \<open>
  Claim C7. For every message and every query \<open>X\<close> of five characters,
  \<open>applies_to_fips("0" + X)\<close> has the same outcome as \<open>applies_to_fips(X)\<close> (result and
  effects); a query whose length is neither 5 nor 6 raises ValueError and leaves the message
  and the world as they were.
\<close>

theorem applies_to_fips_leading_zero:
  "(length X = 5 \<longrightarrow> applies_to_fips clk E w m (48 # X) = applies_to_fips clk E w m X) \<and>
   (length q \<noteq> 5 \<and> length q \<noteq> 6 \<longrightarrow> applies_to_fips clk E w m q = (Inl ValueError, w, m))"
  by (simp add: applies_to_fips_def)

lemma applies_clean_39173:
  "fst (applies_to_fips (\<lambda>n. 1465324200 + of_nat n) sample_env \<lparr>tick = 3, callbacks = 0\<rparr>
          \<lparr>transmitter = None, headers = None,
           avg_message = Some (clean_header, replicate 52 9),
           received_callback = False, timeout = NegInf, start_time = 1465324140,
           published = 1465324140, event_id = OfHeader clean_header\<rparr> (ustr ''39173'')) = Inr True"
  by code_simp

theorem applies_to_fips_leading_zero_witness:
  "fst (applies_to_fips (\<lambda>n. 1465324200 + of_nat n) sample_env \<lparr>tick = 3, callbacks = 0\<rparr>
          \<lparr>transmitter = None, headers = None,
           avg_message = Some (clean_header, replicate 52 9),
           received_callback = False, timeout = NegInf, start_time = 1465324140,
           published = 1465324140, event_id = OfHeader clean_header\<rparr> (ustr ''039173'')) = Inr True \<and>
   fst (applies_to_fips (\<lambda>n. 1465324200 + of_nat n) sample_env \<lparr>tick = 3, callbacks = 0\<rparr>
          \<lparr>transmitter = None, headers = None,
           avg_message = Some (clean_header, replicate 52 9),
           received_callback = False, timeout = NegInf, start_time = 1465324140,
           published = 1465324140, event_id = OfHeader clean_header\<rparr> (ustr ''3917'')) = Inl ValueError"
  using applies_to_fips_leading_zero
    [of "ustr ''39173''" "\<lambda>n. 1465324200 + of_nat n" sample_env "\<lparr>tick = 3, callbacks = 0\<rparr>"
        "\<lparr>transmitter = None, headers = None,
           avg_message = Some (clean_header, replicate 52 9),
           received_callback = False, timeout = NegInf, start_time = 1465324140,
           published = 1465324140, event_id = OfHeader clean_header\<rparr>" "ustr ''3917''"]
    applies_clean_39173
  by (simp add: ustr_def)

end
